theory Spec2Isabelle
  imports Main
begin

section \<open>The incident-lag simulator: data model\<close>

text \<open>
  A shallow embedding of \<^verbatim>\<open>simulate_incident.py\<close>.  Python's unbounded integers are
  \<^typ>\<open>int\<close>, strings are \<^typ>\<open>string\<close>, \<^verbatim>\<open>Optional[int]\<close> is \<^typ>\<open>int option\<close>.
  A function that mutates the \<^verbatim>\<open>State\<close> object it is handed returns the updated
  state next to its Python return value; a \<^verbatim>\<open>raise\<close> is the \<open>Inl\<close> branch of a sum.
\<close>

record params =
  propagation_lag_ticks :: int
  observer_cache_ttl_ticks :: int
  automation_trigger_after_ticks :: int

record state =
  tick :: int
  role_attached_tick :: "int option"
  required_role :: string
  service_account_deployed :: bool
  service_account_in_use :: bool
  service_account_revoked :: bool
  cached_red_until_tick :: "int option"
  consecutive_observed_red :: int
  operator_assumption_tick :: "int option"
  automation_action_tick :: "int option"
  total_requests :: int
  denied_requests :: int
  revoked_requests :: int

text \<open>The dataclass defaults, \<^verbatim>\<open>State()\<close>.\<close>

definition State :: state where
  "State = \<lparr>tick = 0, role_attached_tick = None, required_role = ''unknown'',
     service_account_deployed = False, service_account_in_use = False,
     service_account_revoked = False, cached_red_until_tick = None,
     consecutive_observed_red = 0, operator_assumption_tick = None,
     automation_action_tick = None, total_requests = 0, denied_requests = 0,
     revoked_requests = 0\<rparr>"

text \<open>
  One item of \<^verbatim>\<open>incident_events\<close>: the keys \<^verbatim>\<open>tick\<close> and \<^verbatim>\<open>event\<close>, and the
  optional \<^verbatim>\<open>details.role\<close> (\<open>None\<close> when \<^verbatim>\<open>details\<close> or its \<^verbatim>\<open>role\<close> is absent).
\<close>

record event =
  ev_tick :: int
  ev_event :: string
  ev_role :: "string option"

datatype error = ValueError string

text \<open>
  A row of the metrics table.  \<open>row_service_account_revoked\<close> is \<^verbatim>\<open>int(bool)\<close>;
  \<open>row_role_attached_tick = None\<close> stands for the empty string the source writes when
  no role is attached.
\<close>

record metrics_row =
  row_tick :: int
  row_request_result :: string
  row_observer :: string
  row_consecutive_observed_red :: int
  row_service_account_revoked :: int
  row_role_attached_tick :: "int option"

record summary =
  sum_scenario_name :: string
  sum_max_tick :: int
  sum_required_role :: string
  sum_role_attached_tick :: "int option"
  sum_operator_assumption_tick :: "int option"
  sum_automation_action_tick :: "int option"
  sum_total_requests :: int
  sum_denied_requests :: int
  sum_revoked_requests :: int
  sum_propagation_lag_ticks :: int
  sum_observer_cache_ttl_ticks :: int
  sum_automation_trigger_after_ticks :: int

text \<open>The configuration document after \<^verbatim>\<open>_load_config\<close>, with the fields \<^verbatim>\<open>run\<close> reads.\<close>

record config =
  scenario_name :: string
  max_tick :: int
  parameters :: params
  regions :: "string list"
  incident_events :: "event list"

section \<open>Strings\<close>

text \<open>\<^verbatim>\<open>str(n)\<close> for the integers an f-string formats.\<close>

definition digit_char :: "nat \<Rightarrow> char" where
  "digit_char d = ''0123456789'' ! d"

function str_nat :: "nat \<Rightarrow> string" where
  "str_nat n = (if n < 10 then [digit_char n] else str_nat (n div 10) @ [digit_char (n mod 10)])"
  by pat_completeness auto
termination
  by (relation "measure id") auto

declare str_nat.simps [simp del]

definition str_int :: "int \<Rightarrow> string" where
  "str_int i = (if i < 0 then ''-'' @ str_nat (nat (- i)) else str_nat (nat i))"

text \<open>Python's \<^verbatim>\<open>sub in s\<close> on strings: \<open>sub\<close> occurs in \<open>s\<close> as a contiguous run.\<close>

fun starts_with :: "string \<Rightarrow> string \<Rightarrow> bool" where
  "starts_with [] s = True"
| "starts_with (c # cs) [] = False"
| "starts_with (c # cs) (d # ds) = (c = d \<and> starts_with cs ds)"

fun str_contains :: "string \<Rightarrow> string \<Rightarrow> bool" where
  "str_contains sub [] = starts_with sub []"
| "str_contains sub (d # ds) = (starts_with sub (d # ds) \<or> str_contains sub ds)"

section \<open>The per-tick steps\<close>

definition region_enforces_role :: "int \<Rightarrow> int option \<Rightarrow> int \<Rightarrow> bool" where
  "region_enforces_role t rat lag =
     (case rat of None \<Rightarrow> False | Some a \<Rightarrow> t \<ge> a + lag)"

text \<open>The \<^verbatim>\<open>for r in regions\<close> loop of \<^verbatim>\<open>_service_request\<close>.\<close>

fun service_request_regions :: "state \<Rightarrow> params \<Rightarrow> string list \<Rightarrow> bool \<times> string" where
  "service_request_regions st p [] = (True, ''OK'')"
| "service_request_regions st p (r # rs) =
     (if \<not> region_enforces_role (tick st) (role_attached_tick st) (propagation_lag_ticks p)
      then (False, ''PERMISSION_DENIED('' @ r @ '')'')
      else service_request_regions st p rs)"

definition service_request :: "state \<Rightarrow> params \<Rightarrow> string list \<Rightarrow> bool \<times> string" where
  "service_request st p rs =
     (if \<not> service_account_in_use st then (False, ''SERVICE_NOT_STARTED'')
      else if service_account_revoked st then (False, ''SERVICE_ACCOUNT_REVOKED'')
      else service_request_regions st p rs)"

definition observer_color :: "state \<Rightarrow> params \<Rightarrow> bool \<Rightarrow> string \<times> state" where
  "observer_color st p request_ok =
     (if \<not> request_ok
      then (''RED'', st\<lparr>cached_red_until_tick := Some (tick st + observer_cache_ttl_ticks p)\<rparr>)
      else (case cached_red_until_tick st of
              Some c \<Rightarrow> if tick st \<le> c then (''RED'', st) else (''GREEN'', st)
            | None \<Rightarrow> (''GREEN'', st)))"

definition automation_step :: "state \<Rightarrow> params \<Rightarrow> string \<Rightarrow> string option \<times> state" where
  "automation_step st p observed_color =
     (let st1 = (if observed_color = ''RED''
                 then st\<lparr>consecutive_observed_red := consecutive_observed_red st + 1\<rparr>
                 else st\<lparr>consecutive_observed_red := 0\<rparr>)
      in if \<not> service_account_revoked st1
            \<and> consecutive_observed_red st1 \<ge> automation_trigger_after_ticks p
         then (Some ''AUTOMATION_REVOKE_SERVICE_ACCOUNT (misclassified propagation lag as compromise/misconfig)'',
               st1\<lparr>service_account_revoked := True, automation_action_tick := Some (tick st1)\<rparr>)
         else (None, st1))"

definition apply_event :: "state \<Rightarrow> event \<Rightarrow> error + (string \<times> state)" where
  "apply_event st ev =
     (let e = ev_event ev in
      if e = ''deploy_service_account''
      then Inr (''deploy_service_account'', st\<lparr>service_account_deployed := True\<rparr>)
      else if e = ''attach_required_role''
      then (let role = (case ev_role ev of None \<Rightarrow> ''unknown_role'' | Some r \<Rightarrow> r)
            in Inr (''attach_required_role('' @ role @ '') control_plane_ack'',
                    st\<lparr>role_attached_tick := Some (tick st), required_role := role\<rparr>))
      else if e = ''service_starts_using_service_account''
      then (if \<not> service_account_deployed st
            then Inl (ValueError ''service started using SA before SA deployed'')
            else Inr (''service_starts_using_service_account'',
                      st\<lparr>service_account_in_use := True\<rparr>))
      else if e = ''operator_assumes_propagation_complete''
      then Inr (''operator_assumes_propagation_complete (control-plane view)'',
                st\<lparr>operator_assumption_tick := Some (tick st)\<rparr>)
      else Inl (ValueError (''Unknown event: '' @ e)))"

section \<open>The tick driver\<close>

text \<open>
  \<^verbatim>\<open>events_by_tick\<close>: the dictionary built with \<^verbatim>\<open>setdefault(t, []).append(item)\<close>,
  and its lookup \<^verbatim>\<open>events_by_tick.get(t, [])\<close>.
\<close>

definition events_by_tick :: "event list \<Rightarrow> (int \<rightharpoonup> event list)" where
  "events_by_tick items =
     foldl (\<lambda>m item. m(ev_tick item \<mapsto> (case m (ev_tick item) of None \<Rightarrow> [] | Some l \<Rightarrow> l) @ [item]))
           Map.empty items"

definition get_events :: "(int \<rightharpoonup> event list) \<Rightarrow> int \<Rightarrow> event list" where
  "get_events m t = (case m t of None \<Rightarrow> [] | Some l \<Rightarrow> l)"

text \<open>
  The inner loop over the events of one tick: each event is applied to the state and
  adds one \<^verbatim>\<open>EVENT\<close> line; the first event that raises ends the run.
\<close>

fun apply_events :: "int \<Rightarrow> state \<Rightarrow> event list \<Rightarrow> error + (state \<times> string list)" where
  "apply_events t st [] = Inr (st, [])"
| "apply_events t st (ev # evs) =
     (case apply_event st ev of
        Inl err \<Rightarrow> Inl err
      | Inr (action, st1) \<Rightarrow>
          (case apply_events t st1 evs of
             Inl err \<Rightarrow> Inl err
           | Inr (st2, ls) \<Rightarrow> Inr (st2, (''T'' @ str_int t @ '': EVENT '' @ action) # ls)))"

text \<open>
  The body of \<^verbatim>\<open>for t in range(0, max_tick + 1)\<close>: the new state, the timeline lines
  the tick appends and the metrics row it appends.
\<close>

definition tick_body ::
  "params \<Rightarrow> string list \<Rightarrow> (int \<rightharpoonup> event list) \<Rightarrow> int \<Rightarrow> state
     \<Rightarrow> error + (state \<times> string list \<times> metrics_row)" where
  "tick_body p rs ebt t st =
     (case apply_events t (st\<lparr>tick := t\<rparr>) (get_events ebt t) of
        Inl err \<Rightarrow> Inl err
      | Inr (st1, ev_lines) \<Rightarrow>
          (let (ok, reason) = service_request st1 p rs;
               st2 = st1\<lparr>total_requests := total_requests st1 + 1\<rparr>;
               st3 = (if str_contains ''PERMISSION_DENIED'' reason
                      then st2\<lparr>denied_requests := denied_requests st2 + 1\<rparr> else st2);
               st4 = (if reason = ''SERVICE_ACCOUNT_REVOKED''
                      then st3\<lparr>revoked_requests := revoked_requests st3 + 1\<rparr> else st3);
               req_line = ''T'' @ str_int t @ '': REQUEST '' @ reason;
               (obs, st5) = observer_color st4 p ok;
               obs_line = ''T'' @ str_int t @ '': OBSERVER '' @ obs @ '' consecutive_red=''
                            @ str_int (consecutive_observed_red st5);
               (auto, st6) = automation_step st5 p obs;
               dec_lines = (case auto of
                              None \<Rightarrow> []
                            | Some a \<Rightarrow> if a = [] then []
                                        else [''T'' @ str_int t @ '': DECISION WRONG '' @ a]);
               row = \<lparr>row_tick = t, row_request_result = reason, row_observer = obs,
                      row_consecutive_observed_red = consecutive_observed_red st6,
                      row_service_account_revoked = (if service_account_revoked st6 then 1 else 0),
                      row_role_attached_tick = role_attached_tick st6\<rparr>
           in Inr (st6, ev_lines @ [req_line, obs_line] @ dec_lines, row)))"

text \<open>
  The loop over the ticks.  \<^verbatim>\<open>timeline_lines\<close> and \<^verbatim>\<open>metrics_rows\<close> start empty and are
  only appended to, so the loop returns what it appended, in order.
\<close>

fun run_loop ::
  "params \<Rightarrow> string list \<Rightarrow> (int \<rightharpoonup> event list) \<Rightarrow> int list \<Rightarrow> state
     \<Rightarrow> error + (state \<times> string list \<times> metrics_row list)" where
  "run_loop p rs ebt [] st = Inr (st, [], [])"
| "run_loop p rs ebt (t # ts) st =
     (case tick_body p rs ebt t st of
        Inl err \<Rightarrow> Inl err
      | Inr (st1, ls, row) \<Rightarrow>
          (case run_loop p rs ebt ts st1 of
             Inl err \<Rightarrow> Inl err
           | Inr (st2, ls', rows) \<Rightarrow> Inr (st2, ls @ ls', row # rows)))"

definition run :: "config \<Rightarrow> error + (string list \<times> metrics_row list \<times> summary)" where
  "run cfg =
     (let p = parameters cfg in
      case run_loop p (regions cfg) (events_by_tick (incident_events cfg)) [0..max_tick cfg] State of
        Inl err \<Rightarrow> Inl err
      | Inr (st, timeline_lines, metrics_rows) \<Rightarrow>
          Inr (timeline_lines, metrics_rows,
               \<lparr>sum_scenario_name = scenario_name cfg,
                sum_max_tick = max_tick cfg,
                sum_required_role = required_role st,
                sum_role_attached_tick = role_attached_tick st,
                sum_operator_assumption_tick = operator_assumption_tick st,
                sum_automation_action_tick = automation_action_tick st,
                sum_total_requests = total_requests st,
                sum_denied_requests = denied_requests st,
                sum_revoked_requests = revoked_requests st,
                sum_propagation_lag_ticks = propagation_lag_ticks p,
                sum_observer_cache_ttl_ticks = observer_cache_ttl_ticks p,
                sum_automation_trigger_after_ticks = automation_trigger_after_ticks p\<rparr>))"

section \<open>Concrete configurations\<close>

text \<open>Configuration documents on which the run is evaluated below.\<close>

definition end_to_end_config :: config where
  "end_to_end_config =
     \<lparr>scenario_name = ''end_to_end'', max_tick = 10,
      parameters = \<lparr>propagation_lag_ticks = 3, observer_cache_ttl_ticks = 2,
                    automation_trigger_after_ticks = 2\<rparr>,
      regions = [''us-east''],
      incident_events =
        [\<lparr>ev_tick = 0, ev_event = ''deploy_service_account'', ev_role = None\<rparr>,
         \<lparr>ev_tick = 0, ev_event = ''attach_required_role'', ev_role = Some ''X''\<rparr>,
         \<lparr>ev_tick = 0, ev_event = ''service_starts_using_service_account'', ev_role = None\<rparr>]\<rparr>"

definition never_started_config :: config where
  "never_started_config =
     \<lparr>scenario_name = ''never_started'', max_tick = 1,
      parameters = \<lparr>propagation_lag_ticks = 0, observer_cache_ttl_ticks = 0,
                    automation_trigger_after_ticks = 1\<rparr>,
      regions = [''us-east''],
      incident_events = []\<rparr>"

definition quick_revoke_config :: config where
  "quick_revoke_config =
     \<lparr>scenario_name = ''quick_revoke'', max_tick = 3,
      parameters = \<lparr>propagation_lag_ticks = 3, observer_cache_ttl_ticks = 0,
                    automation_trigger_after_ticks = 2\<rparr>,
      regions = [''us-east''],
      incident_events =
        [\<lparr>ev_tick = 0, ev_event = ''deploy_service_account'', ev_role = None\<rparr>,
         \<lparr>ev_tick = 0, ev_event = ''service_starts_using_service_account'', ev_role = None\<rparr>]\<rparr>"

definition recovery_config :: config where
  "recovery_config =
     \<lparr>scenario_name = ''recovery'', max_tick = 3,
      parameters = \<lparr>propagation_lag_ticks = 1, observer_cache_ttl_ticks = 2,
                    automation_trigger_after_ticks = 100\<rparr>,
      regions = [''us-east''],
      incident_events =
        [\<lparr>ev_tick = 0, ev_event = ''deploy_service_account'', ev_role = None\<rparr>,
         \<lparr>ev_tick = 0, ev_event = ''attach_required_role'', ev_role = Some ''X''\<rparr>,
         \<lparr>ev_tick = 0, ev_event = ''service_starts_using_service_account'', ev_role = None\<rparr>]\<rparr>"

definition reattach_config :: config where
  "reattach_config =
     \<lparr>scenario_name = ''reattach'', max_tick = 2,
      parameters = \<lparr>propagation_lag_ticks = 1, observer_cache_ttl_ticks = 0,
                    automation_trigger_after_ticks = 100\<rparr>,
      regions = [''us-east''],
      incident_events =
        [\<lparr>ev_tick = 0, ev_event = ''attach_required_role'', ev_role = Some ''X''\<rparr>,
         \<lparr>ev_tick = 2, ev_event = ''attach_required_role'', ev_role = None\<rparr>]\<rparr>"

definition undeployed_config :: config where
  "undeployed_config =
     \<lparr>scenario_name = ''undeployed'', max_tick = 1,
      parameters = \<lparr>propagation_lag_ticks = 1, observer_cache_ttl_ticks = 1,
                    automation_trigger_after_ticks = 5\<rparr>,
      regions = [''us-east''],
      incident_events =
        [\<lparr>ev_tick = 0, ev_event = ''service_starts_using_service_account'', ev_role = None\<rparr>]\<rparr>"

definition unknown_event_config :: config where
  "unknown_event_config =
     \<lparr>scenario_name = ''unknown_event'', max_tick = 1,
      parameters = \<lparr>propagation_lag_ticks = 1, observer_cache_ttl_ticks = 1,
                    automation_trigger_after_ticks = 5\<rparr>,
      regions = [''us-east''],
      incident_events =
        [\<lparr>ev_tick = 0, ev_event = ''rotate_keys'', ev_role = None\<rparr>]\<rparr>"

definition role_history_config :: config where
  "role_history_config =
     \<lparr>scenario_name = ''role_history'', max_tick = 3,
      parameters = \<lparr>propagation_lag_ticks = 1, observer_cache_ttl_ticks = 0,
                    automation_trigger_after_ticks = 100\<rparr>,
      regions = [''us-east''],
      incident_events =
        [\<lparr>ev_tick = 0, ev_event = ''attach_required_role'', ev_role = Some ''X''\<rparr>,
         \<lparr>ev_tick = 1, ev_event = ''deploy_service_account'', ev_role = None\<rparr>,
         \<lparr>ev_tick = 1, ev_event = ''service_starts_using_service_account'', ev_role = None\<rparr>,
         \<lparr>ev_tick = 2, ev_event = ''operator_assumes_propagation_complete'', ev_role = None\<rparr>,
         \<lparr>ev_tick = 3, ev_event = ''attach_required_role'', ev_role = None\<rparr>]\<rparr>"

text \<open>A metrics row whose streak is still below the automation trigger of the configuration.\<close>

abbreviation below_trigger :: "config \<Rightarrow> metrics_row \<Rightarrow> bool" where
  "below_trigger cfg r \<equiv>
     row_consecutive_observed_red r < automation_trigger_after_ticks (parameters cfg)"

section \<open>Properties of the steps\<close>

subsection \<open>Requests\<close>

lemma service_request_regions_eq:
  "service_request_regions st p rs =
     (if rs \<noteq> [] \<and> \<not> region_enforces_role (tick st) (role_attached_tick st) (propagation_lag_ticks p)
      then (False, ''PERMISSION_DENIED('' @ hd rs @ '')'') else (True, ''OK''))"
  by (induction rs) auto

lemma service_request_ok_iff:
  "fst (service_request st p rs) \<longleftrightarrow> snd (service_request st p rs) = ''OK''"
  by (simp add: service_request_def service_request_regions_eq)

lemma service_request_revoked:
  "service_account_in_use st \<Longrightarrow> service_account_revoked st \<Longrightarrow>
     service_request st p rs = (False, ''SERVICE_ACCOUNT_REVOKED'')"
  by (simp add: service_request_def)

subsection \<open>Events\<close>

lemma apply_event_fields:
  assumes "apply_event st ev = Inr (a, st')"
  shows "tick st' = tick st"
    and "service_account_revoked st' = service_account_revoked st"
    and "service_account_in_use st \<Longrightarrow> service_account_in_use st'"
    and "cached_red_until_tick st' = cached_red_until_tick st"
    and "consecutive_observed_red st' = consecutive_observed_red st"
    and "automation_action_tick st' = automation_action_tick st"
    and "total_requests st' = total_requests st"
    and "denied_requests st' = denied_requests st"
    and "revoked_requests st' = revoked_requests st"
  using assms by (auto simp: apply_event_def Let_def split: if_splits)

lemma apply_events_fields:
  assumes "apply_events t st evs = Inr (st', ls)"
  shows "tick st' = tick st"
    and "service_account_revoked st' = service_account_revoked st"
    and "service_account_in_use st \<Longrightarrow> service_account_in_use st'"
    and "cached_red_until_tick st' = cached_red_until_tick st"
    and "consecutive_observed_red st' = consecutive_observed_red st"
    and "automation_action_tick st' = automation_action_tick st"
    and "total_requests st' = total_requests st"
    and "denied_requests st' = denied_requests st"
    and "revoked_requests st' = revoked_requests st"
  using assms
  by (induction evs arbitrary: st st' ls;
      auto split: sum.splits prod.splits dest: apply_event_fields)+


subsection \<open>One tick\<close>

lemma observer_color_fields:
  "tick (snd (observer_color st p ok)) = tick st"
  "service_account_revoked (snd (observer_color st p ok)) = service_account_revoked st"
  "service_account_in_use (snd (observer_color st p ok)) = service_account_in_use st"
  "consecutive_observed_red (snd (observer_color st p ok)) = consecutive_observed_red st"
  "automation_action_tick (snd (observer_color st p ok)) = automation_action_tick st"
  "role_attached_tick (snd (observer_color st p ok)) = role_attached_tick st"
  "total_requests (snd (observer_color st p ok)) = total_requests st"
  "denied_requests (snd (observer_color st p ok)) = denied_requests st"
  "revoked_requests (snd (observer_color st p ok)) = revoked_requests st"
  by (simp_all add: observer_color_def split: option.splits)

lemma observer_color_cache:
  "cached_red_until_tick (snd (observer_color st p ok)) =
     (if ok then cached_red_until_tick st else Some (tick st + observer_cache_ttl_ticks p))"
  "fst (observer_color st p ok) =
     (if ok then (case cached_red_until_tick st of
                    Some c \<Rightarrow> if tick st \<le> c then ''RED'' else ''GREEN''
                  | None \<Rightarrow> ''GREEN'')
      else ''RED'')"
  by (simp_all add: observer_color_def split: option.splits)

lemma automation_step_fields:
  "tick (snd (automation_step st p c)) = tick st"
  "service_account_in_use (snd (automation_step st p c)) = service_account_in_use st"
  "cached_red_until_tick (snd (automation_step st p c)) = cached_red_until_tick st"
  "role_attached_tick (snd (automation_step st p c)) = role_attached_tick st"
  "total_requests (snd (automation_step st p c)) = total_requests st"
  "denied_requests (snd (automation_step st p c)) = denied_requests st"
  "revoked_requests (snd (automation_step st p c)) = revoked_requests st"
  "consecutive_observed_red (snd (automation_step st p c)) =
     (if c = ''RED'' then consecutive_observed_red st + 1 else 0)"
  by (simp_all add: automation_step_def Let_def)

lemma automation_step_revoked:
  "service_account_revoked (snd (automation_step st p c)) \<longleftrightarrow>
     service_account_revoked st
     \<or> automation_trigger_after_ticks p \<le> consecutive_observed_red (snd (automation_step st p c))"
  "automation_action_tick (snd (automation_step st p c)) =
     (if \<not> service_account_revoked st
         \<and> automation_trigger_after_ticks p \<le> consecutive_observed_red (snd (automation_step st p c))
      then Some (tick st) else automation_action_tick st)"
  by (simp_all add: automation_step_def Let_def)

lemma tick_body_InrD:
  assumes "tick_body p rs ebt t st = Inr (st', ls, row)"
  shows "\<exists>st1 evl st4 st5.
      apply_events t (st\<lparr>tick := t\<rparr>) (get_events ebt t) = Inr (st1, evl)
    \<and> st4 = st1\<lparr>total_requests := total_requests st1 + 1,
               denied_requests := denied_requests st1
                  + (if str_contains ''PERMISSION_DENIED'' (snd (service_request st1 p rs)) then 1 else 0),
               revoked_requests := revoked_requests st1
                  + (if snd (service_request st1 p rs) = ''SERVICE_ACCOUNT_REVOKED'' then 1 else 0)\<rparr>
    \<and> st5 = snd (observer_color st4 p (fst (service_request st1 p rs)))
    \<and> st' = snd (automation_step st5 p (fst (observer_color st4 p (fst (service_request st1 p rs)))))
    \<and> row_tick row = t
    \<and> row_request_result row = snd (service_request st1 p rs)
    \<and> row_observer row = fst (observer_color st4 p (fst (service_request st1 p rs)))
    \<and> row_consecutive_observed_red row = consecutive_observed_red st'
    \<and> row_service_account_revoked row = (if service_account_revoked st' then 1 else 0)
    \<and> row_role_attached_tick row = role_attached_tick st'"
  using assms
  by (auto simp: tick_body_def Let_def split: sum.splits prod.splits if_splits)



lemmas step_fields = automation_step_fields observer_color_fields

lemma tick_body_row:
  assumes "tick_body p rs ebt t st = Inr (st', ls, row)"
  shows "row_tick row = t"
    and "row_consecutive_observed_red row = consecutive_observed_red st'"
    and "row_service_account_revoked row = (if service_account_revoked st' then 1 else 0)"
    and "row_role_attached_tick row = role_attached_tick st'"
  using tick_body_InrD [OF assms] by auto

lemma tick_body_request:
  assumes "tick_body p rs ebt t st = Inr (st', ls, row)"
  shows "\<exists>st1 evl. apply_events t (st\<lparr>tick := t\<rparr>) (get_events ebt t) = Inr (st1, evl)
           \<and> row_request_result row = snd (service_request st1 p rs)
           \<and> role_attached_tick st' = role_attached_tick st1"
  using tick_body_InrD [OF assms] by (auto simp: step_fields)

lemma tick_body_tick:
  assumes "tick_body p rs ebt t st = Inr (st', ls, row)"
  shows "tick st' = t"
  using tick_body_InrD [OF assms]
  by (auto simp: step_fields dest: apply_events_fields(1))

lemma tick_body_in_use:
  assumes "tick_body p rs ebt t st = Inr (st', ls, row)" and "service_account_in_use st"
  shows "service_account_in_use st'"
  using tick_body_InrD [OF assms(1)] assms(2)
  by (auto simp: step_fields dest: apply_events_fields(3))

lemma tick_body_streak:
  assumes "tick_body p rs ebt t st = Inr (st', ls, row)"
  shows "consecutive_observed_red st' =
           (if row_observer row = ''RED'' then consecutive_observed_red st + 1 else 0)"
  using tick_body_InrD [OF assms]
  by (auto simp: step_fields dest: apply_events_fields(5))

lemma tick_body_revoked:
  assumes "tick_body p rs ebt t st = Inr (st', ls, row)"
  shows "service_account_revoked st' \<longleftrightarrow>
           service_account_revoked st
           \<or> automation_trigger_after_ticks p \<le> consecutive_observed_red st'"
  using tick_body_InrD [OF assms]
  by (auto simp: step_fields automation_step_revoked(1) dest: apply_events_fields(2))

lemma tick_body_action_tick:
  assumes "tick_body p rs ebt t st = Inr (st', ls, row)"
  shows "automation_action_tick st' =
           (if \<not> service_account_revoked st
               \<and> automation_trigger_after_ticks p \<le> consecutive_observed_red st'
            then Some t else automation_action_tick st)"
proof -
  from tick_body_InrD [OF assms] obtain st1 evl st4 st5 where
    ev: "apply_events t (st\<lparr>tick := t\<rparr>) (get_events ebt t) = Inr (st1, evl)"
    and st4: "st4 = st1\<lparr>total_requests := total_requests st1 + 1,
               denied_requests := denied_requests st1
                  + (if str_contains ''PERMISSION_DENIED'' (snd (service_request st1 p rs)) then 1 else 0),
               revoked_requests := revoked_requests st1
                  + (if snd (service_request st1 p rs) = ''SERVICE_ACCOUNT_REVOKED'' then 1 else 0)\<rparr>"
    and st5: "st5 = snd (observer_color st4 p (fst (service_request st1 p rs)))"
    and st': "st' = snd (automation_step st5 p (fst (observer_color st4 p (fst (service_request st1 p rs)))))"
    by blast
  have "tick st5 = t" "service_account_revoked st5 = service_account_revoked st"
    "automation_action_tick st5 = automation_action_tick st"
    using apply_events_fields(1,2,6) [OF ev] by (simp_all add: st5 st4 step_fields)
  then show ?thesis
    unfolding st' by (simp add: automation_step_revoked(2))
qed

lemma tick_body_counters:
  assumes "tick_body p rs ebt t st = Inr (st', ls, row)"
  shows "total_requests st' = total_requests st + 1"
    and "denied_requests st' = denied_requests st
           + (if str_contains ''PERMISSION_DENIED'' (row_request_result row) then 1 else 0)"
    and "revoked_requests st' = revoked_requests st
           + (if row_request_result row = ''SERVICE_ACCOUNT_REVOKED'' then 1 else 0)"
  using tick_body_InrD [OF assms]
  by (auto simp: step_fields dest: apply_events_fields(7,8,9))

lemma tick_body_cache:
  assumes "tick_body p rs ebt t st = Inr (st', ls, row)"
  shows "cached_red_until_tick st' =
           (if row_request_result row = ''OK'' then cached_red_until_tick st
            else Some (t + observer_cache_ttl_ticks p))"
    and "row_observer row =
           (if row_request_result row = ''OK''
            then (case cached_red_until_tick st of
                    Some c \<Rightarrow> if t \<le> c then ''RED'' else ''GREEN''
                  | None \<Rightarrow> ''GREEN'')
            else ''RED'')"
proof -
  from tick_body_InrD [OF assms] obtain st1 evl st4 st5 where
    ev: "apply_events t (st\<lparr>tick := t\<rparr>) (get_events ebt t) = Inr (st1, evl)"
    and st4: "st4 = st1\<lparr>total_requests := total_requests st1 + 1,
               denied_requests := denied_requests st1
                  + (if str_contains ''PERMISSION_DENIED'' (snd (service_request st1 p rs)) then 1 else 0),
               revoked_requests := revoked_requests st1
                  + (if snd (service_request st1 p rs) = ''SERVICE_ACCOUNT_REVOKED'' then 1 else 0)\<rparr>"
    and st5: "st5 = snd (observer_color st4 p (fst (service_request st1 p rs)))"
    and st': "st' = snd (automation_step st5 p (fst (observer_color st4 p (fst (service_request st1 p rs)))))"
    and res: "row_request_result row = snd (service_request st1 p rs)"
    and obs: "row_observer row = fst (observer_color st4 p (fst (service_request st1 p rs)))"
    by blast
  have a: "tick st4 = t" "cached_red_until_tick st4 = cached_red_until_tick st"
    using apply_events_fields(1,4) [OF ev] by (simp_all add: st4)
  have ok: "fst (service_request st1 p rs) \<longleftrightarrow> row_request_result row = ''OK''"
    by (simp add: res service_request_ok_iff)
  show "cached_red_until_tick st' =
           (if row_request_result row = ''OK'' then cached_red_until_tick st
            else Some (t + observer_cache_ttl_ticks p))"
    by (simp add: st' st5 automation_step_fields observer_color_cache(1) a ok)
  show "row_observer row =
           (if row_request_result row = ''OK''
            then (case cached_red_until_tick st of
                    Some c \<Rightarrow> if t \<le> c then ''RED'' else ''GREEN''
                  | None \<Rightarrow> ''GREEN'')
            else ''RED'')"
    by (simp add: obs observer_color_cache(2) a ok split: option.splits)
qed

lemma tick_body_revoked_request:
  assumes "tick_body p rs ebt t st = Inr (st', ls, row)"
    and "service_account_revoked st" and "service_account_in_use st"
  shows "row_request_result row = ''SERVICE_ACCOUNT_REVOKED''"
proof -
  from tick_body_request [OF assms(1)] obtain st1 evl where
    ev: "apply_events t (st\<lparr>tick := t\<rparr>) (get_events ebt t) = Inr (st1, evl)"
    and res: "row_request_result row = snd (service_request st1 p rs)"
    by blast
  have "service_account_revoked st1" "service_account_in_use st1"
    using apply_events_fields(2,3) [OF ev] assms(2,3) by simp_all
  then show ?thesis
    by (simp add: res service_request_revoked)
qed


subsection \<open>The loop over the ticks\<close>

lemma run_loop_ConsE:
  assumes "run_loop p rs ebt (t # ts) st = Inr (st', ls, rows)"
  obtains st1 l1 row l2 rows' where
    "tick_body p rs ebt t st = Inr (st1, l1, row)"
    "run_loop p rs ebt ts st1 = Inr (st', l2, rows')"
    "ls = l1 @ l2" "rows = row # rows'"
  using assms by (auto split: sum.splits prod.splits)

lemma run_loop_append:
  "run_loop p rs ebt (xs @ ys) st =
     (case run_loop p rs ebt xs st of
        Inl err \<Rightarrow> Inl err
      | Inr (st1, l1, r1) \<Rightarrow>
          (case run_loop p rs ebt ys st1 of
             Inl err \<Rightarrow> Inl err
           | Inr (st2, l2, r2) \<Rightarrow> Inr (st2, l1 @ l2, r1 @ r2)))"
  by (induction xs arbitrary: st) (auto split: sum.splits prod.splits)

lemma run_loop_appendE:
  assumes "run_loop p rs ebt (xs @ ys) st = Inr (st', ls, rows)"
  obtains st1 l1 r1 l2 r2 where
    "run_loop p rs ebt xs st = Inr (st1, l1, r1)"
    "run_loop p rs ebt ys st1 = Inr (st', l2, r2)"
    "ls = l1 @ l2" "rows = r1 @ r2"
  using assms unfolding run_loop_append by (auto split: sum.splits prod.splits)

lemma run_loop_ticks:
  "run_loop p rs ebt ts st = Inr (st', ls, rows) \<Longrightarrow> map row_tick rows = ts"
proof (induction ts arbitrary: st ls rows)
  case Nil
  then show ?case by simp
next
  case (Cons t ts)
  from Cons.prems obtain st1 l1 row l2 rows' where
    tb: "tick_body p rs ebt t st = Inr (st1, l1, row)"
    and rl: "run_loop p rs ebt ts st1 = Inr (st', l2, rows')"
    and rows: "rows = row # rows'"
    by (rule run_loop_ConsE)
  show ?case
    using Cons.IH [OF rl] tick_body_row(1) [OF tb] by (simp add: rows)
qed

lemma run_loop_length:
  "run_loop p rs ebt ts st = Inr (st', ls, rows) \<Longrightarrow> length rows = length ts"
  using run_loop_ticks [of p rs ebt ts st st' ls rows] by (metis length_map)

text \<open>Once the account is revoked and in use, every later request is refused as revoked.\<close>

lemma run_loop_revoked_in_use:
  assumes "run_loop p rs ebt ts st = Inr (st', ls, rows)"
    and "service_account_revoked st" and "service_account_in_use st"
  shows "(\<forall>r \<in> set rows. row_request_result r = ''SERVICE_ACCOUNT_REVOKED'')
       \<and> revoked_requests st' = revoked_requests st + int (length ts)
       \<and> service_account_revoked st' \<and> service_account_in_use st'"
  using assms
proof (induction ts arbitrary: st ls rows)
  case Nil
  then show ?case by simp
next
  case (Cons t ts)
  from Cons.prems(1) obtain st1 l1 row l2 rows' where
    tb: "tick_body p rs ebt t st = Inr (st1, l1, row)"
    and rl: "run_loop p rs ebt ts st1 = Inr (st', l2, rows')"
    and rows: "rows = row # rows'"
    by (rule run_loop_ConsE)
  have r: "row_request_result row = ''SERVICE_ACCOUNT_REVOKED''"
    using tick_body_revoked_request [OF tb Cons.prems(2,3)] .
  have rev1: "service_account_revoked st1"
    using tick_body_revoked [OF tb] Cons.prems(2) by simp
  have use1: "service_account_in_use st1"
    using tick_body_in_use [OF tb Cons.prems(3)] .
  have cnt: "revoked_requests st1 = revoked_requests st + 1"
    using tick_body_counters(3) [OF tb] r by simp
  from Cons.IH [OF rl rev1 use1] r cnt show ?case
    by (simp add: rows)
qed

text \<open>Once revoked, the automation never acts again.\<close>

lemma run_loop_revoked:
  assumes "run_loop p rs ebt ts st = Inr (st', ls, rows)"
    and "service_account_revoked st"
  shows "(\<forall>r \<in> set rows. row_service_account_revoked r = 1)
       \<and> automation_action_tick st' = automation_action_tick st
       \<and> service_account_revoked st'"
  using assms
proof (induction ts arbitrary: st ls rows)
  case Nil
  then show ?case by simp
next
  case (Cons t ts)
  from Cons.prems(1) obtain st1 l1 row l2 rows' where
    tb: "tick_body p rs ebt t st = Inr (st1, l1, row)"
    and rl: "run_loop p rs ebt ts st1 = Inr (st', l2, rows')"
    and rows: "rows = row # rows'"
    by (rule run_loop_ConsE)
  have rev1: "service_account_revoked st1"
    using tick_body_revoked [OF tb] Cons.prems(2) by simp
  have act: "automation_action_tick st1 = automation_action_tick st"
    using tick_body_action_tick [OF tb] Cons.prems(2) by simp
  have row: "row_service_account_revoked row = 1"
    using tick_body_row(3) [OF tb] rev1 by simp
  from Cons.IH [OF rl rev1] act row show ?case
    by (simp add: rows)
qed

text \<open>
  From a state that is not revoked: the rows before the first one whose streak reaches
  the trigger are not revoked, that row and all later ones are, and the action tick is
  the tick of that row.
\<close>

lemma run_loop_first_trigger:
  assumes "run_loop p rs ebt ts st = Inr (st', ls, rows)"
    and "\<not> service_account_revoked st"
  shows "(\<forall>r \<in> set (takeWhile (\<lambda>r. row_consecutive_observed_red r < automation_trigger_after_ticks p) rows).
            row_service_account_revoked r = 0)
       \<and> (\<forall>r \<in> set (dropWhile (\<lambda>r. row_consecutive_observed_red r < automation_trigger_after_ticks p) rows).
            row_service_account_revoked r = 1)
       \<and> automation_action_tick st' =
           (case dropWhile (\<lambda>r. row_consecutive_observed_red r < automation_trigger_after_ticks p) rows of
              [] \<Rightarrow> automation_action_tick st
            | r # _ \<Rightarrow> Some (row_tick r))
       \<and> (0 < automation_trigger_after_ticks p
            \<and> consecutive_observed_red st < automation_trigger_after_ticks p \<longrightarrow>
            (case dropWhile (\<lambda>r. row_consecutive_observed_red r < automation_trigger_after_ticks p) rows of
               [] \<Rightarrow> True
             | r # _ \<Rightarrow> row_consecutive_observed_red r = automation_trigger_after_ticks p))"
  using assms
proof (induction ts arbitrary: st ls rows)
  case Nil
  then show ?case by simp
next
  case (Cons t ts)
  from Cons.prems(1) obtain st1 l1 row l2 rows' where
    tb: "tick_body p rs ebt t st = Inr (st1, l1, row)"
    and rl: "run_loop p rs ebt ts st1 = Inr (st', l2, rows')"
    and rows: "rows = row # rows'"
    by (rule run_loop_ConsE)
  note rw = tick_body_row [OF tb]
  have rev1: "service_account_revoked st1 \<longleftrightarrow>
      automation_trigger_after_ticks p \<le> row_consecutive_observed_red row"
    using tick_body_revoked [OF tb] Cons.prems(2) by (simp add: rw(2))
  have act1: "automation_action_tick st1 =
      (if automation_trigger_after_ticks p \<le> row_consecutive_observed_red row
       then Some t else automation_action_tick st)"
    using tick_body_action_tick [OF tb] Cons.prems(2) by (simp add: rw(2))
  have up: "row_consecutive_observed_red row \<le> consecutive_observed_red st + 1
      \<or> row_consecutive_observed_red row = 0"
    using tick_body_streak [OF tb] by (simp add: rw(2))
  show ?case
  proof (cases "row_consecutive_observed_red row < automation_trigger_after_ticks p")
    case True
    then have nrev: "\<not> service_account_revoked st1" using rev1 by simp
    have st1: "consecutive_observed_red st1 < automation_trigger_after_ticks p"
      using True by (simp add: rw(2))
    from Cons.IH [OF rl nrev] True act1 rw(3) nrev st1 show ?thesis
      by (simp add: rows cong: list.case_cong)
  next
    case False
    then have r1: "service_account_revoked st1" using rev1 by simp
    from run_loop_revoked [OF rl r1] False act1 rw(1,3) r1 up show ?thesis
      by (auto simp: rows)
  qed
qed

subsection \<open>Substrings\<close>

lemma starts_with_iff: "starts_with sub s \<longleftrightarrow> (\<exists>post. s = sub @ post)"
  by (induction sub s rule: starts_with.induct) auto

lemma str_contains_iff: "str_contains sub s \<longleftrightarrow> (\<exists>pre post. s = pre @ sub @ post)"
proof (induction s)
  case Nil
  then show ?case by (auto simp: starts_with_iff)
next
  case (Cons d ds)
  show ?case
  proof
    assume "str_contains sub (d # ds)"
    then consider "starts_with sub (d # ds)" | "str_contains sub ds" by auto
    then show "\<exists>pre post. d # ds = pre @ sub @ post"
    proof cases
      case 1
      then obtain post where "d # ds = sub @ post" by (auto simp: starts_with_iff)
      then have "d # ds = [] @ sub @ post" by simp
      then show ?thesis by blast
    next
      case 2
      then obtain pre post where "ds = pre @ sub @ post" using Cons.IH by blast
      then have "d # ds = (d # pre) @ sub @ post" by simp
      then show ?thesis by blast
    qed
  next
    assume "\<exists>pre post. d # ds = pre @ sub @ post"
    then obtain pre post where e: "d # ds = pre @ sub @ post" by blast
    show "str_contains sub (d # ds)"
    proof (cases pre)
      case Nil
      then have "starts_with sub (d # ds)" using e by (auto simp: starts_with_iff)
      then show ?thesis by simp
    next
      case (Cons c cs)
      then have "ds = cs @ sub @ post" using e by simp
      then have "str_contains sub ds" using Cons.IH by blast
      then show ?thesis by simp
    qed
  qed
qed

subsection \<open>The role attachment and raising events\<close>

lemma apply_event_role:
  assumes "apply_event st ev = Inr (a, st')"
  shows "role_attached_tick st' =
           (if ev_event ev = ''attach_required_role'' then Some (tick st) else role_attached_tick st)"
  using assms by (auto simp: apply_event_def Let_def split: if_splits)

lemma apply_events_role:
  assumes "apply_events t st evs = Inr (st', ls)"
  shows "(role_attached_tick st \<noteq> None \<longrightarrow> role_attached_tick st' \<noteq> None)
       \<and> ((\<forall>e \<in> set evs. ev_event e \<noteq> ''attach_required_role'') \<longrightarrow>
            role_attached_tick st' = role_attached_tick st)"
  using assms
proof (induction evs arbitrary: st ls)
  case Nil
  then show ?case by simp
next
  case (Cons ev evs)
  from Cons.prems obtain a st1 ls1 where
    e: "apply_event st ev = Inr (a, st1)" and r: "apply_events t st1 evs = Inr (st', ls1)"
    by (auto split: sum.splits prod.splits)
  from Cons.IH [OF r] apply_event_role [OF e] show ?case
    by (auto split: if_splits)
qed

lemma apply_events_raise:
  assumes "apply_events t st0 pre = Inr (st, ls)" and "apply_event st ev = Inl err"
  shows "apply_events t st0 (pre @ ev # post) = Inl err"
  using assms
  by (induction pre arbitrary: st0 ls) (auto split: sum.splits prod.splits)

lemma tick_body_role:
  assumes "tick_body p rs ebt t st = Inr (st', ls, row)"
  shows "(role_attached_tick st \<noteq> None \<longrightarrow> role_attached_tick st' \<noteq> None)
       \<and> ((\<forall>e \<in> set (get_events ebt t). ev_event e \<noteq> ''attach_required_role'') \<longrightarrow>
            role_attached_tick st' = role_attached_tick st)"
proof -
  from tick_body_request [OF assms] obtain st1 evl where
    ev: "apply_events t (st\<lparr>tick := t\<rparr>) (get_events ebt t) = Inr (st1, evl)"
    and r: "role_attached_tick st' = role_attached_tick st1"
    by blast
  from apply_events_role [OF ev] r show ?thesis by simp
qed

lemma run_loop_role:
  assumes "run_loop p rs ebt ts st = Inr (st', ls, rows)"
  shows "(role_attached_tick st \<noteq> None \<longrightarrow> role_attached_tick st' \<noteq> None)
       \<and> ((\<forall>t \<in> set ts. \<forall>e \<in> set (get_events ebt t). ev_event e \<noteq> ''attach_required_role'') \<longrightarrow>
            role_attached_tick st' = role_attached_tick st)"
  using assms
proof (induction ts arbitrary: st ls rows)
  case Nil
  then show ?case by simp
next
  case (Cons t ts)
  from Cons.prems(1) obtain st1 l1 row l2 rows' where
    tb: "tick_body p rs ebt t st = Inr (st1, l1, row)"
    and rl: "run_loop p rs ebt ts st1 = Inr (st', l2, rows')"
    by (rule run_loop_ConsE)
  from Cons.IH [OF rl] tick_body_role [OF tb] show ?case by simp
qed

subsection \<open>The cache window over a run\<close>

text \<open>While every request succeeds, the cache window stays as it is.\<close>

lemma run_loop_cache_ok:
  assumes "run_loop p rs ebt ts st = Inr (st', ls, rows)"
    and "j < length rows"
    and "\<forall>u \<le> j. row_request_result (rows ! u) = ''OK''"
  shows "row_observer (rows ! j) =
           (case cached_red_until_tick st of
              Some c \<Rightarrow> if ts ! j \<le> c then ''RED'' else ''GREEN''
            | None \<Rightarrow> ''GREEN'')"
  using assms
proof (induction ts arbitrary: st ls rows j)
  case Nil
  then show ?case by simp
next
  case (Cons t ts)
  from Cons.prems(1) obtain st1 l1 row l2 rows' where
    tb: "tick_body p rs ebt t st = Inr (st1, l1, row)"
    and rl: "run_loop p rs ebt ts st1 = Inr (st', l2, rows')"
    and rows: "rows = row # rows'"
    by (rule run_loop_ConsE)
  have ok0: "row_request_result row = ''OK''"
    using Cons.prems(3) by (auto simp: rows dest: spec [of _ 0])
  note c = tick_body_cache [OF tb]
  show ?case
  proof (cases j)
    case 0
    then show ?thesis using c(2) ok0 by (simp add: rows cong: option.case_cong)
  next
    case (Suc k)
    have k: "k < length rows'" using Cons.prems(2) by (simp add: rows Suc)
    have oks: "\<forall>u \<le> k. row_request_result (rows' ! u) = ''OK''"
    proof (intro allI impI)
      fix u assume "u \<le> k"
      then have "Suc u \<le> j" by (simp add: Suc)
      with Cons.prems(3) have "row_request_result (rows ! Suc u) = ''OK''" by blast
      then show "row_request_result (rows' ! u) = ''OK''" by (simp add: rows)
    qed
    from Cons.IH [OF rl k oks] c(1) ok0 show ?thesis
      by (simp add: rows Suc cong: option.case_cong)
  qed
qed

lemma run_loop_cache:
  assumes "run_loop p rs ebt ts st = Inr (st', ls, rows)"
    and "i < j" and "j < length rows"
    and "row_request_result (rows ! i) \<noteq> ''OK''"
    and "\<forall>u. i < u \<and> u \<le> j \<longrightarrow> row_request_result (rows ! u) = ''OK''"
  shows "row_observer (rows ! i) = ''RED''
       \<and> row_observer (rows ! j) =
           (if ts ! j \<le> ts ! i + observer_cache_ttl_ticks p then ''RED'' else ''GREEN'')"
  using assms
proof (induction ts arbitrary: st ls rows i j)
  case Nil
  then show ?case by simp
next
  case (Cons t ts)
  from Cons.prems(1) obtain st1 l1 row l2 rows' where
    tb: "tick_body p rs ebt t st = Inr (st1, l1, row)"
    and rl: "run_loop p rs ebt ts st1 = Inr (st', l2, rows')"
    and rows: "rows = row # rows'"
    by (rule run_loop_ConsE)
  note c = tick_body_cache [OF tb]
  from Cons.prems(2) obtain k where j: "j = Suc k" by (cases j) auto
  have k: "k < length rows'" using Cons.prems(3) by (simp add: rows j)
  show ?case
  proof (cases i)
    case 0
    have bad: "row_request_result row \<noteq> ''OK''" using Cons.prems(4) by (simp add: rows 0)
    have oks: "\<forall>u \<le> k. row_request_result (rows' ! u) = ''OK''"
    proof (intro allI impI)
      fix u assume "u \<le> k"
      then have "i < Suc u \<and> Suc u \<le> j" by (simp add: j 0)
      with Cons.prems(5) have "row_request_result (rows ! Suc u) = ''OK''" by blast
      then show "row_request_result (rows' ! u) = ''OK''" by (simp add: rows)
    qed
    from run_loop_cache_ok [OF rl k oks] c bad show ?thesis
      by (simp add: rows 0 j cong: option.case_cong)
  next
    case (Suc i')
    have lt: "i' < k" using Cons.prems(2) by (simp add: Suc j)
    have bad: "row_request_result (rows' ! i') \<noteq> ''OK''"
      using Cons.prems(4) by (simp add: rows Suc)
    have oks: "\<forall>u. i' < u \<and> u \<le> k \<longrightarrow> row_request_result (rows' ! u) = ''OK''"
    proof (intro allI impI)
      fix u assume "i' < u \<and> u \<le> k"
      then have "i < Suc u \<and> Suc u \<le> j" by (simp add: j Suc)
      with Cons.prems(5) have "row_request_result (rows ! Suc u) = ''OK''" by blast
      then show "row_request_result (rows' ! u) = ''OK''" by (simp add: rows)
    qed
    from Cons.IH [OF rl lt k bad oks] show ?thesis
      by (simp add: rows Suc j)
  qed
qed

subsection \<open>The streak over a run\<close>

text \<open>
  The streak column of the metrics follows the observer column: a \<^verbatim>\<open>RED\<close> row adds 1 to the
  streak of the row before it, any other row resets it to 0.
\<close>

lemma run_loop_streak:
  assumes "run_loop p rs ebt ts st = Inr (st', ls, rows)" and "i < length rows"
  shows "row_consecutive_observed_red (rows ! i) =
           (if row_observer (rows ! i) = ''RED''
            then (if i = 0 then consecutive_observed_red st
                  else row_consecutive_observed_red (rows ! (i - 1))) + 1
            else 0)"
  using assms
proof (induction ts arbitrary: st ls rows i)
  case Nil
  then show ?case by simp
next
  case (Cons t ts)
  from Cons.prems(1) obtain st1 l1 row l2 rows' where
    tb: "tick_body p rs ebt t st = Inr (st1, l1, row)"
    and rl: "run_loop p rs ebt ts st1 = Inr (st', l2, rows')"
    and rows: "rows = row # rows'"
    by (rule run_loop_ConsE)
  have s1: "row_consecutive_observed_red row = consecutive_observed_red st1"
    using tick_body_row(2) [OF tb] .
  show ?case
  proof (cases i)
    case 0
    then show ?thesis using tick_body_streak [OF tb] s1 by (simp add: rows)
  next
    case (Suc k)
    then have k: "k < length rows'" using Cons.prems(2) by (simp add: rows)
    from Cons.IH [OF rl k] s1 show ?thesis
      by (cases k) (simp_all add: rows Suc)
  qed
qed

lemma streak_closed_form:
  fixes rows :: "metrics_row list"
  assumes rec: "\<And>i. i < length rows \<Longrightarrow>
      row_consecutive_observed_red (rows ! i) =
           (if row_observer (rows ! i) = ''RED''
            then (if i = 0 then 0
                  else row_consecutive_observed_red (rows ! (i - 1))) + 1
            else 0)"
    and "i < length rows"
  shows "row_consecutive_observed_red (rows ! i) =
           int (length (takeWhile (\<lambda>r. row_observer r = ''RED'') (rev (take (Suc i) rows))))"
  using assms(2)
proof (induction i)
  case 0
  then show ?case using rec [of 0] by (simp add: take_Suc_conv_app_nth)
next
  case (Suc i)
  then have i: "i < length rows" by simp
  from rec [OF Suc.prems] Suc.IH [OF i] show ?case
    by (simp add: take_Suc_conv_app_nth [OF Suc.prems])
qed

section \<open>Evaluated runs\<close>

text \<open>
  The results of the loop and of \<open>run\<close> on the configurations above, computed from the
  definitions.
\<close>

lemma never_started_tick:
  "tick_body (parameters never_started_config) (regions never_started_config)
     (events_by_tick (incident_events never_started_config)) 0 State
   = Inr (State\<lparr>service_account_revoked := True, cached_red_until_tick := Some 0,
                consecutive_observed_red := 1, automation_action_tick := Some 0,
                total_requests := 1\<rparr>,
          [''T0: REQUEST SERVICE_NOT_STARTED'',
           ''T0: OBSERVER RED consecutive_red=0'',
           ''T0: DECISION WRONG AUTOMATION_REVOKE_SERVICE_ACCOUNT (misclassified propagation lag as compromise/misconfig)''],
          \<lparr>row_tick = 0, row_request_result = ''SERVICE_NOT_STARTED'',
           row_observer = ''RED'', row_consecutive_observed_red = 1,
           row_service_account_revoked = 1, row_role_attached_tick = None\<rparr>)"
  by code_simp

lemma quick_revoke_after_1:
  "run_loop (parameters quick_revoke_config) (regions quick_revoke_config)
     (events_by_tick (incident_events quick_revoke_config)) [0..1] State
   = Inr (\<lparr>tick = 1, role_attached_tick = None, required_role = ''unknown'',
           service_account_deployed = True, service_account_in_use = True,
           service_account_revoked = True, cached_red_until_tick = Some 1,
           consecutive_observed_red = 2, operator_assumption_tick = None,
           automation_action_tick = Some 1, total_requests = 2,
           denied_requests = 2, revoked_requests = 0\<rparr>,
          [''T0: EVENT deploy_service_account'',
           ''T0: EVENT service_starts_using_service_account'',
           ''T0: REQUEST PERMISSION_DENIED(us-east)'',
           ''T0: OBSERVER RED consecutive_red=0'',
           ''T1: REQUEST PERMISSION_DENIED(us-east)'',
           ''T1: OBSERVER RED consecutive_red=1'',
           ''T1: DECISION WRONG AUTOMATION_REVOKE_SERVICE_ACCOUNT (misclassified propagation lag as compromise/misconfig)''],
          [\<lparr>row_tick = 0, row_request_result = ''PERMISSION_DENIED(us-east)'',
            row_observer = ''RED'', row_consecutive_observed_red = 1,
            row_service_account_revoked = 0, row_role_attached_tick = None\<rparr>,
           \<lparr>row_tick = 1, row_request_result = ''PERMISSION_DENIED(us-east)'',
            row_observer = ''RED'', row_consecutive_observed_red = 2,
            row_service_account_revoked = 1, row_role_attached_tick = None\<rparr>])"
  by code_simp

lemma quick_revoke_after_3:
  "run_loop (parameters quick_revoke_config) (regions quick_revoke_config)
     (events_by_tick (incident_events quick_revoke_config)) [0..3] State
   = Inr (\<lparr>tick = 3, role_attached_tick = None, required_role = ''unknown'',
           service_account_deployed = True, service_account_in_use = True,
           service_account_revoked = True, cached_red_until_tick = Some 3,
           consecutive_observed_red = 4, operator_assumption_tick = None,
           automation_action_tick = Some 1, total_requests = 4,
           denied_requests = 2, revoked_requests = 2\<rparr>,
          [''T0: EVENT deploy_service_account'',
           ''T0: EVENT service_starts_using_service_account'',
           ''T0: REQUEST PERMISSION_DENIED(us-east)'',
           ''T0: OBSERVER RED consecutive_red=0'',
           ''T1: REQUEST PERMISSION_DENIED(us-east)'',
           ''T1: OBSERVER RED consecutive_red=1'',
           ''T1: DECISION WRONG AUTOMATION_REVOKE_SERVICE_ACCOUNT (misclassified propagation lag as compromise/misconfig)'',
           ''T2: REQUEST SERVICE_ACCOUNT_REVOKED'',
           ''T2: OBSERVER RED consecutive_red=2'',
           ''T3: REQUEST SERVICE_ACCOUNT_REVOKED'',
           ''T3: OBSERVER RED consecutive_red=3''],
          [\<lparr>row_tick = 0, row_request_result = ''PERMISSION_DENIED(us-east)'',
            row_observer = ''RED'', row_consecutive_observed_red = 1,
            row_service_account_revoked = 0, row_role_attached_tick = None\<rparr>,
           \<lparr>row_tick = 1, row_request_result = ''PERMISSION_DENIED(us-east)'',
            row_observer = ''RED'', row_consecutive_observed_red = 2,
            row_service_account_revoked = 1, row_role_attached_tick = None\<rparr>,
           \<lparr>row_tick = 2, row_request_result = ''SERVICE_ACCOUNT_REVOKED'',
            row_observer = ''RED'', row_consecutive_observed_red = 3,
            row_service_account_revoked = 1, row_role_attached_tick = None\<rparr>,
           \<lparr>row_tick = 3, row_request_result = ''SERVICE_ACCOUNT_REVOKED'',
            row_observer = ''RED'', row_consecutive_observed_red = 4,
            row_service_account_revoked = 1, row_role_attached_tick = None\<rparr>])"
  by code_simp

lemma quick_revoke_run:
  "run quick_revoke_config
   = Inr ([''T0: EVENT deploy_service_account'',
           ''T0: EVENT service_starts_using_service_account'',
           ''T0: REQUEST PERMISSION_DENIED(us-east)'',
           ''T0: OBSERVER RED consecutive_red=0'',
           ''T1: REQUEST PERMISSION_DENIED(us-east)'',
           ''T1: OBSERVER RED consecutive_red=1'',
           ''T1: DECISION WRONG AUTOMATION_REVOKE_SERVICE_ACCOUNT (misclassified propagation lag as compromise/misconfig)'',
           ''T2: REQUEST SERVICE_ACCOUNT_REVOKED'',
           ''T2: OBSERVER RED consecutive_red=2'',
           ''T3: REQUEST SERVICE_ACCOUNT_REVOKED'',
           ''T3: OBSERVER RED consecutive_red=3''],
          [\<lparr>row_tick = 0, row_request_result = ''PERMISSION_DENIED(us-east)'',
            row_observer = ''RED'', row_consecutive_observed_red = 1,
            row_service_account_revoked = 0, row_role_attached_tick = None\<rparr>,
           \<lparr>row_tick = 1, row_request_result = ''PERMISSION_DENIED(us-east)'',
            row_observer = ''RED'', row_consecutive_observed_red = 2,
            row_service_account_revoked = 1, row_role_attached_tick = None\<rparr>,
           \<lparr>row_tick = 2, row_request_result = ''SERVICE_ACCOUNT_REVOKED'',
            row_observer = ''RED'', row_consecutive_observed_red = 3,
            row_service_account_revoked = 1, row_role_attached_tick = None\<rparr>,
           \<lparr>row_tick = 3, row_request_result = ''SERVICE_ACCOUNT_REVOKED'',
            row_observer = ''RED'', row_consecutive_observed_red = 4,
            row_service_account_revoked = 1, row_role_attached_tick = None\<rparr>],
          \<lparr>sum_scenario_name = ''quick_revoke'', sum_max_tick = 3,
           sum_required_role = ''unknown'', sum_role_attached_tick = None,
           sum_operator_assumption_tick = None,
           sum_automation_action_tick = Some 1, sum_total_requests = 4,
           sum_denied_requests = 2, sum_revoked_requests = 2,
           sum_propagation_lag_ticks = 3, sum_observer_cache_ttl_ticks = 0,
           sum_automation_trigger_after_ticks = 2\<rparr>)"
  by code_simp

lemma recovery_run:
  "run recovery_config
   = Inr ([''T0: EVENT deploy_service_account'',
           ''T0: EVENT attach_required_role(X) control_plane_ack'',
           ''T0: EVENT service_starts_using_service_account'',
           ''T0: REQUEST PERMISSION_DENIED(us-east)'',
           ''T0: OBSERVER RED consecutive_red=0'', ''T1: REQUEST OK'',
           ''T1: OBSERVER RED consecutive_red=1'', ''T2: REQUEST OK'',
           ''T2: OBSERVER RED consecutive_red=2'', ''T3: REQUEST OK'',
           ''T3: OBSERVER GREEN consecutive_red=3''],
          [\<lparr>row_tick = 0, row_request_result = ''PERMISSION_DENIED(us-east)'',
            row_observer = ''RED'', row_consecutive_observed_red = 1,
            row_service_account_revoked = 0, row_role_attached_tick = Some 0\<rparr>,
           \<lparr>row_tick = 1, row_request_result = ''OK'', row_observer = ''RED'',
            row_consecutive_observed_red = 2, row_service_account_revoked = 0,
            row_role_attached_tick = Some 0\<rparr>,
           \<lparr>row_tick = 2, row_request_result = ''OK'', row_observer = ''RED'',
            row_consecutive_observed_red = 3, row_service_account_revoked = 0,
            row_role_attached_tick = Some 0\<rparr>,
           \<lparr>row_tick = 3, row_request_result = ''OK'', row_observer = ''GREEN'',
            row_consecutive_observed_red = 0, row_service_account_revoked = 0,
            row_role_attached_tick = Some 0\<rparr>],
          \<lparr>sum_scenario_name = ''recovery'', sum_max_tick = 3,
           sum_required_role = ''X'', sum_role_attached_tick = Some 0,
           sum_operator_assumption_tick = None,
           sum_automation_action_tick = None, sum_total_requests = 4,
           sum_denied_requests = 1, sum_revoked_requests = 0,
           sum_propagation_lag_ticks = 1, sum_observer_cache_ttl_ticks = 2,
           sum_automation_trigger_after_ticks = 100\<rparr>)"
  by code_simp

lemma role_history_tick_0:
  "run_loop (parameters role_history_config) (regions role_history_config)
     (events_by_tick (incident_events role_history_config)) [0..0] State
   = Inr (\<lparr>tick = 0, role_attached_tick = Some 0, required_role = ''X'',
           service_account_deployed = False, service_account_in_use = False,
           service_account_revoked = False, cached_red_until_tick = Some 0,
           consecutive_observed_red = 1, operator_assumption_tick = None,
           automation_action_tick = None, total_requests = 1,
           denied_requests = 0, revoked_requests = 0\<rparr>,
          [''T0: EVENT attach_required_role(X) control_plane_ack'',
           ''T0: REQUEST SERVICE_NOT_STARTED'',
           ''T0: OBSERVER RED consecutive_red=0''],
          [\<lparr>row_tick = 0, row_request_result = ''SERVICE_NOT_STARTED'',
            row_observer = ''RED'', row_consecutive_observed_red = 1,
            row_service_account_revoked = 0, row_role_attached_tick = Some 0\<rparr>])"
  by code_simp

lemma role_history_ticks_1_2:
  "run_loop (parameters role_history_config) (regions role_history_config)
     (events_by_tick (incident_events role_history_config)) [1..2]
     \<lparr>tick = 0, role_attached_tick = Some 0, required_role = ''X'',
      service_account_deployed = False, service_account_in_use = False,
      service_account_revoked = False, cached_red_until_tick = Some 0,
      consecutive_observed_red = 1, operator_assumption_tick = None,
      automation_action_tick = None, total_requests = 1,
      denied_requests = 0, revoked_requests = 0\<rparr>
   = Inr (\<lparr>tick = 2, role_attached_tick = Some 0, required_role = ''X'',
           service_account_deployed = True, service_account_in_use = True,
           service_account_revoked = False, cached_red_until_tick = Some 0,
           consecutive_observed_red = 0, operator_assumption_tick = Some 2,
           automation_action_tick = None, total_requests = 3,
           denied_requests = 0, revoked_requests = 0\<rparr>,
          [''T1: EVENT deploy_service_account'',
           ''T1: EVENT service_starts_using_service_account'',
           ''T1: REQUEST OK'', ''T1: OBSERVER GREEN consecutive_red=1'',
           ''T2: EVENT operator_assumes_propagation_complete (control-plane view)'',
           ''T2: REQUEST OK'', ''T2: OBSERVER GREEN consecutive_red=0''],
          [\<lparr>row_tick = 1, row_request_result = ''OK'', row_observer = ''GREEN'',
            row_consecutive_observed_red = 0, row_service_account_revoked = 0,
            row_role_attached_tick = Some 0\<rparr>,
           \<lparr>row_tick = 2, row_request_result = ''OK'', row_observer = ''GREEN'',
            row_consecutive_observed_red = 0, row_service_account_revoked = 0,
            row_role_attached_tick = Some 0\<rparr>])"
  by code_simp

lemma role_history_tick_3:
  "run_loop (parameters role_history_config) (regions role_history_config)
     (events_by_tick (incident_events role_history_config)) [3..3]
     \<lparr>tick = 2, role_attached_tick = Some 0, required_role = ''X'',
      service_account_deployed = True, service_account_in_use = True,
      service_account_revoked = False, cached_red_until_tick = Some 0,
      consecutive_observed_red = 0, operator_assumption_tick = Some 2,
      automation_action_tick = None, total_requests = 3,
      denied_requests = 0, revoked_requests = 0\<rparr>
   = Inr (\<lparr>tick = 3, role_attached_tick = Some 3,
           required_role = ''unknown_role'', service_account_deployed = True,
           service_account_in_use = True, service_account_revoked = False,
           cached_red_until_tick = Some 3, consecutive_observed_red = 1,
           operator_assumption_tick = Some 2, automation_action_tick = None,
           total_requests = 4, denied_requests = 1, revoked_requests = 0\<rparr>,
          [''T3: EVENT attach_required_role(unknown_role) control_plane_ack'',
           ''T3: REQUEST PERMISSION_DENIED(us-east)'',
           ''T3: OBSERVER RED consecutive_red=0''],
          [\<lparr>row_tick = 3, row_request_result = ''PERMISSION_DENIED(us-east)'',
            row_observer = ''RED'', row_consecutive_observed_red = 1,
            row_service_account_revoked = 0, row_role_attached_tick = Some 3\<rparr>])"
  by code_simp

lemma role_history_events:
  "get_events (events_by_tick (incident_events role_history_config)) 1
     = [\<lparr>ev_tick = 1, ev_event = ''deploy_service_account'', ev_role = None\<rparr>,
        \<lparr>ev_tick = 1, ev_event = ''service_starts_using_service_account'', ev_role = None\<rparr>]"
  "get_events (events_by_tick (incident_events role_history_config)) 2
     = [\<lparr>ev_tick = 2, ev_event = ''operator_assumes_propagation_complete'', ev_role = None\<rparr>]"
  "get_events (events_by_tick (incident_events role_history_config)) 3
     = [\<lparr>ev_tick = 3, ev_event = ''attach_required_role'', ev_role = None\<rparr>]"
  by (simp_all add: role_history_config_def events_by_tick_def get_events_def)

section \<open>The specification claims\<close>

subsection \<open>C1: revocation is permanent\<close>

text \<open>
  C1 (amended): let the account be revoked and in use in the state after tick \<open>T\<close>.
  Then at every later tick \<open>t\<close> the request is evaluated on a state where it returns
  failure with reason \<^verbatim>\<open>SERVICE_ACCOUNT_REVOKED\<close>, the row of tick \<open>t\<close> reports that
  reason, and \<open>revoked_requests\<close> grows by exactly 1 at tick \<open>t\<close>, hence by \<open>t - T\<close>
  since tick \<open>T\<close>.
\<close>

theorem revocation_permanence:
  assumes "run_loop p rs ebt [0..T] State = Inr (st_T, ls_T, rows_T)"
    and "service_account_revoked st_T" and "service_account_in_use st_T"
    and "T < t"
    and "run_loop p rs ebt [0..t] State = Inr (st_t, ls_t, rows_t)"
  shows "\<exists>st_prev ls_prev rows_prev st_req ev_lines.
           run_loop p rs ebt [0..t - 1] State = Inr (st_prev, ls_prev, rows_prev)
         \<and> apply_events t (st_prev\<lparr>tick := t\<rparr>) (get_events ebt t) = Inr (st_req, ev_lines)
         \<and> service_request st_req p rs = (False, ''SERVICE_ACCOUNT_REVOKED'')
         \<and> row_tick (last rows_t) = t
         \<and> row_request_result (last rows_t) = ''SERVICE_ACCOUNT_REVOKED''
         \<and> revoked_requests st_t = revoked_requests st_prev + 1
         \<and> revoked_requests st_t = revoked_requests st_T + (t - T)"
proof -
  have T0: "0 \<le> T"
  proof (rule ccontr)
    assume "\<not> 0 \<le> T"
    then have "st_T = State" using assms(1) by simp
    with assms(2) show False by (simp add: State_def)
  qed
  have split_t: "[0..t] = [0..t - 1] @ [t]"
    using T0 assms(4) by (simp add: upto_rec2)
  from assms(5) [unfolded split_t] obtain st_prev ls_prev rows_prev l2 r2 where
    prev: "run_loop p rs ebt [0..t - 1] State = Inr (st_prev, ls_prev, rows_prev)"
    and one: "run_loop p rs ebt [t] st_prev = Inr (st_t, l2, r2)"
    and rows_t: "rows_t = rows_prev @ r2"
    by (rule run_loop_appendE)
  from one obtain row where
    tb: "tick_body p rs ebt t st_prev = Inr (st_t, l2, row)" and r2: "r2 = [row]"
    by (auto split: sum.splits prod.splits)
  have split_T: "[0..t - 1] = [0..T] @ [T + 1..t - 1]"
    using T0 assms(4) by (intro upto_split2) simp_all
  from prev [unfolded split_T] obtain st1 l1 r1 l3 r3 where
    a: "run_loop p rs ebt [0..T] State = Inr (st1, l1, r1)"
    and b: "run_loop p rs ebt [T + 1..t - 1] st1 = Inr (st_prev, l3, r3)"
    by (rule run_loop_appendE)
  from a assms(1) have st1: "st1 = st_T" by simp
  from run_loop_revoked_in_use [OF b [unfolded st1] assms(2,3)] have
    cnt: "revoked_requests st_prev = revoked_requests st_T + int (length [T + 1..t - 1])"
    and rev: "service_account_revoked st_prev" and use: "service_account_in_use st_prev"
    by simp_all
  from tick_body_request [OF tb] obtain st_req ev_lines where
    ev: "apply_events t (st_prev\<lparr>tick := t\<rparr>) (get_events ebt t) = Inr (st_req, ev_lines)"
    by blast
  have "service_account_revoked st_req" "service_account_in_use st_req"
    using apply_events_fields(2,3) [OF ev] rev use by simp_all
  then have req: "service_request st_req p rs = (False, ''SERVICE_ACCOUNT_REVOKED'')"
    by (rule service_request_revoked [rotated])
  have res: "row_request_result row = ''SERVICE_ACCOUNT_REVOKED''"
    using tick_body_revoked_request [OF tb rev use] .
  have one_more: "revoked_requests st_t = revoked_requests st_prev + 1"
    using tick_body_counters(3) [OF tb] res by simp
  have len: "int (length [T + 1..t - 1]) = t - T - 1"
    using assms(4) by simp
  have total: "revoked_requests st_t = revoked_requests st_T + (t - T)"
    using one_more cnt len by simp
  have last: "last rows_t = row"
    by (simp add: rows_t r2)
  show ?thesis
    using prev ev req res one_more total tick_body_row(1) [OF tb] last by auto
qed

text \<open>
  The amended C1 on the run that revokes at tick 1: from tick 1 to tick 3 the counter
  grows by 2.
\<close>

theorem revocation_permanence_witness:
  "\<exists>st_T ls_T rows_T st_t ls_t rows_t.
     run_loop (parameters quick_revoke_config) (regions quick_revoke_config)
       (events_by_tick (incident_events quick_revoke_config)) [0..1] State
       = Inr (st_T, ls_T, rows_T)
   \<and> service_account_revoked st_T \<and> service_account_in_use st_T
   \<and> run_loop (parameters quick_revoke_config) (regions quick_revoke_config)
       (events_by_tick (incident_events quick_revoke_config)) [0..3] State
       = Inr (st_t, ls_t, rows_t)
   \<and> row_tick (last rows_t) = 3
   \<and> row_request_result (last rows_t) = ''SERVICE_ACCOUNT_REVOKED''
   \<and> revoked_requests st_t = revoked_requests st_T + 2"
  using revocation_permanence [OF quick_revoke_after_1 _ _ _ quick_revoke_after_3]
    quick_revoke_after_1 quick_revoke_after_3
  by simp

text \<open>
  C1, as stated, fails in two ways.  When the service never started, the automation
  still revokes the account at tick 0, and the requests of ticks 0 and 1 report
  \<^verbatim>\<open>SERVICE_NOT_STARTED\<close> with the counter left at 0.  When the account is in use and
  revoked at tick 1, the request of tick 1 itself, evaluated before the automation step,
  reports \<^verbatim>\<open>PERMISSION_DENIED\<close>.
\<close>

theorem revocation_permanence_counterexample:
  "(case run never_started_config of
      Inl err \<Rightarrow> ([], 0)
    | Inr (timeline_lines, metrics_rows, summ) \<Rightarrow>
        (map (\<lambda>r. (row_tick r, row_service_account_revoked r, row_request_result r)) metrics_rows,
         sum_revoked_requests summ))
   = ([(0, 1, ''SERVICE_NOT_STARTED''), (1, 1, ''SERVICE_NOT_STARTED'')], 0)
 \<and> (case run quick_revoke_config of
      Inl err \<Rightarrow> ([], 0)
    | Inr (timeline_lines, metrics_rows, summ) \<Rightarrow>
        (map (\<lambda>r. (row_tick r, row_service_account_revoked r, row_request_result r)) metrics_rows,
         sum_revoked_requests summ))
   = ([(0, 0, ''PERMISSION_DENIED(us-east)''), (1, 1, ''PERMISSION_DENIED(us-east)''),
       (2, 1, ''SERVICE_ACCOUNT_REVOKED''), (3, 1, ''SERVICE_ACCOUNT_REVOKED'')], 2)"
  by code_simp

subsection \<open>C2: the end-to-end scenario\<close>

text \<open>
  C2 (amended): on that configuration the requests of ticks 0 and 1 report
  \<^verbatim>\<open>PERMISSION_DENIED(us-east)\<close> with observer \<^verbatim>\<open>RED\<close>, the streak reaches 2 at tick 1
  and the automation revokes the account at tick 1, and every tick from 2 to 10 reports
  \<^verbatim>\<open>SERVICE_ACCOUNT_REVOKED\<close> and \<^verbatim>\<open>RED\<close>.
\<close>

theorem end_to_end_scenario:
  "(case run end_to_end_config of
      Inl err \<Rightarrow> ([], None)
    | Inr (timeline_lines, metrics_rows, summ) \<Rightarrow>
        (map (\<lambda>r. (row_tick r, row_request_result r, row_observer r,
                    row_consecutive_observed_red r, row_service_account_revoked r))
           metrics_rows,
         sum_automation_action_tick summ))
   = ([(0, ''PERMISSION_DENIED(us-east)'', ''RED'', 1, 0),
       (1, ''PERMISSION_DENIED(us-east)'', ''RED'', 2, 1),
       (2, ''SERVICE_ACCOUNT_REVOKED'', ''RED'', 3, 1),
       (3, ''SERVICE_ACCOUNT_REVOKED'', ''RED'', 4, 1),
       (4, ''SERVICE_ACCOUNT_REVOKED'', ''RED'', 5, 1),
       (5, ''SERVICE_ACCOUNT_REVOKED'', ''RED'', 6, 1),
       (6, ''SERVICE_ACCOUNT_REVOKED'', ''RED'', 7, 1),
       (7, ''SERVICE_ACCOUNT_REVOKED'', ''RED'', 8, 1),
       (8, ''SERVICE_ACCOUNT_REVOKED'', ''RED'', 9, 1),
       (9, ''SERVICE_ACCOUNT_REVOKED'', ''RED'', 10, 1),
       (10, ''SERVICE_ACCOUNT_REVOKED'', ''RED'', 11, 1)],
      Some 1)"
  by code_simp

text \<open>
  C2, as stated, has the requests of ticks 0 to 2 denied with
  \<^verbatim>\<open>PERMISSION_DENIED(us-east)\<close> and the revocation at tick 2.  In the run the streak is
  1 after tick 0 and 2 after tick 1, so the automation revokes at tick 1 and the request
  of tick 2 is already refused as \<^verbatim>\<open>SERVICE_ACCOUNT_REVOKED\<close>.
\<close>

theorem end_to_end_counterexample:
  "(case run end_to_end_config of
      Inl err \<Rightarrow> []
    | Inr (timeline_lines, metrics_rows, summ) \<Rightarrow>
        map (\<lambda>r. (row_tick r, row_request_result r, row_service_account_revoked r))
          (take 3 metrics_rows))
   = [(0, ''PERMISSION_DENIED(us-east)'', 0),
      (1, ''PERMISSION_DENIED(us-east)'', 1),
      (2, ''SERVICE_ACCOUNT_REVOKED'', 1)]"
  by code_simp

subsection \<open>C3: the order of the request checks\<close>

text \<open>
  C3 (amended): a request fails with \<^verbatim>\<open>SERVICE_NOT_STARTED\<close> when the account is not in
  use; else with \<^verbatim>\<open>SERVICE_ACCOUNT_REVOKED\<close> when it is revoked; else, when the region
  list is not empty and no role was ever attached or the tick is before
  \<open>role_attached_tick + propagation_lag_ticks\<close>, with \<^verbatim>\<open>PERMISSION_DENIED\<close> naming the
  first region of the list; otherwise it succeeds with \<^verbatim>\<open>OK\<close>.
\<close>

theorem request_order:
  "service_request st p rs =
     (if \<not> service_account_in_use st then (False, ''SERVICE_NOT_STARTED'')
      else if service_account_revoked st then (False, ''SERVICE_ACCOUNT_REVOKED'')
      else if rs \<noteq> [] \<and> (case role_attached_tick st of
                            None \<Rightarrow> True
                          | Some a \<Rightarrow> tick st < a + propagation_lag_ticks p)
      then (False, ''PERMISSION_DENIED('' @ hd rs @ '')'')
      else (True, ''OK''))"
  by (simp add: service_request_def service_request_regions_eq region_enforces_role_def
      not_le split: option.splits)

text \<open>
  The amended C3 on a request one tick after the attachment, with a lag of 3 and two
  regions.
\<close>

theorem request_order_witness:
  "service_request
     (State\<lparr>tick := 1, service_account_in_use := True, role_attached_tick := Some 0\<rparr>)
     \<lparr>propagation_lag_ticks = 3, observer_cache_ttl_ticks = 2, automation_trigger_after_ticks = 2\<rparr>
     [''us-east'', ''eu-west'']
   = (False, ''PERMISSION_DENIED(us-east)'')"
  using request_order [of
     "State\<lparr>tick := 1, service_account_in_use := True, role_attached_tick := Some 0\<rparr>"
     "\<lparr>propagation_lag_ticks = 3, observer_cache_ttl_ticks = 2, automation_trigger_after_ticks = 2\<rparr>"
     "[''us-east'', ''eu-west'']"]
  by (simp add: State_def)

text \<open>
  C3, as stated for every region list, fails on the empty list: no role was ever
  attached, and the request succeeds.
\<close>

theorem request_order_counterexample:
  "role_attached_tick (State\<lparr>service_account_in_use := True\<rparr>) = None
   \<and> service_request (State\<lparr>service_account_in_use := True\<rparr>)
        \<lparr>propagation_lag_ticks = 3, observer_cache_ttl_ticks = 2, automation_trigger_after_ticks = 2\<rparr>
        []
      = (True, ''OK'')"
  by (simp add: State_def service_request_def)

subsection \<open>C4: the automation threshold\<close>

text \<open>
  C4: in a run that returns, the metrics rows are those of the ticks 0 to \<open>max_tick\<close>,
  and the streak of each row is the number of consecutive \<^verbatim>\<open>RED\<close> observations that end
  at its tick;
  the rows before the first one whose streak reaches the trigger \<open>N\<close> are not revoked,
  that row and every later one are revoked, and the action tick of the summary is the
  tick of that row (none when no row reaches \<open>N\<close>): the revocation happens at that tick,
  not earlier, and its stamp is never overwritten.  For \<open>N > 0\<close> the streak of that row
  is exactly \<open>N\<close>.  On a revoked state the automation step returns no action and changes
  the streak counter only.
\<close>

theorem automation_threshold:
  assumes "run cfg = Inr (timeline_lines, metrics_rows, summ)"
  shows "map row_tick metrics_rows = [0..max_tick cfg]
       \<and> (\<forall>i < length metrics_rows.
             row_consecutive_observed_red (metrics_rows ! i) =
               int (length (takeWhile (\<lambda>r. row_observer r = ''RED'')
                              (rev (take (Suc i) metrics_rows)))))
       \<and> (\<forall>r \<in> set (takeWhile (below_trigger cfg) metrics_rows). row_service_account_revoked r = 0)
       \<and> (\<forall>r \<in> set (dropWhile (below_trigger cfg) metrics_rows). row_service_account_revoked r = 1)
       \<and> sum_automation_action_tick summ =
           (case dropWhile (below_trigger cfg) metrics_rows of
              [] \<Rightarrow> None
            | r # _ \<Rightarrow> Some (row_tick r))
       \<and> (0 < automation_trigger_after_ticks (parameters cfg) \<longrightarrow>
            (case dropWhile (below_trigger cfg) metrics_rows of
               [] \<Rightarrow> True
             | r # _ \<Rightarrow> row_consecutive_observed_red r = automation_trigger_after_ticks (parameters cfg)))
       \<and> (\<forall>st c. service_account_revoked st \<longrightarrow>
             automation_step st (parameters cfg) c =
               (None, st\<lparr>consecutive_observed_red :=
                            (if c = ''RED'' then consecutive_observed_red st + 1 else 0)\<rparr>))"
proof -
  from assms obtain st where
    rl: "run_loop (parameters cfg) (regions cfg) (events_by_tick (incident_events cfg))
           [0..max_tick cfg] State = Inr (st, timeline_lines, metrics_rows)"
    and act: "sum_automation_action_tick summ = automation_action_tick st"
    by (auto simp: run_def Let_def split: sum.splits prod.splits)
  have init: "\<not> service_account_revoked State" "automation_action_tick State = None"
    "consecutive_observed_red State = 0"
    by (simp_all add: State_def)
  have step: "\<forall>st c. service_account_revoked st \<longrightarrow>
             automation_step st (parameters cfg) c =
               (None, st\<lparr>consecutive_observed_red :=
                            (if c = ''RED'' then consecutive_observed_red st + 1 else 0)\<rparr>)"
    by (simp add: automation_step_def Let_def)
  have streak: "\<forall>i < length metrics_rows.
             row_consecutive_observed_red (metrics_rows ! i) =
               int (length (takeWhile (\<lambda>r. row_observer r = ''RED'')
                              (rev (take (Suc i) metrics_rows))))"
  proof (intro allI impI)
    fix i assume i: "i < length metrics_rows"
    show "row_consecutive_observed_red (metrics_rows ! i) =
               int (length (takeWhile (\<lambda>r. row_observer r = ''RED'')
                              (rev (take (Suc i) metrics_rows))))"
    proof (rule streak_closed_form [OF _ i])
      fix k assume "k < length metrics_rows"
      from run_loop_streak [OF rl this] show
        "row_consecutive_observed_red (metrics_rows ! k) =
           (if row_observer (metrics_rows ! k) = ''RED''
            then (if k = 0 then 0
                  else row_consecutive_observed_red (metrics_rows ! (k - 1))) + 1
            else 0)"
        by (simp add: init(3))
    qed
  qed
  from run_loop_first_trigger [OF rl init(1)] run_loop_ticks [OF rl] act init(2,3) step
  have rest: "map row_tick metrics_rows = [0..max_tick cfg]
       \<and> (\<forall>r \<in> set (takeWhile (below_trigger cfg) metrics_rows). row_service_account_revoked r = 0)
       \<and> (\<forall>r \<in> set (dropWhile (below_trigger cfg) metrics_rows). row_service_account_revoked r = 1)
       \<and> sum_automation_action_tick summ =
           (case dropWhile (below_trigger cfg) metrics_rows of
              [] \<Rightarrow> None
            | r # _ \<Rightarrow> Some (row_tick r))
       \<and> (0 < automation_trigger_after_ticks (parameters cfg) \<longrightarrow>
            (case dropWhile (below_trigger cfg) metrics_rows of
               [] \<Rightarrow> True
             | r # _ \<Rightarrow> row_consecutive_observed_red r = automation_trigger_after_ticks (parameters cfg)))
       \<and> (\<forall>st c. service_account_revoked st \<longrightarrow>
             automation_step st (parameters cfg) c =
               (None, st\<lparr>consecutive_observed_red :=
                            (if c = ''RED'' then consecutive_observed_red st + 1 else 0)\<rparr>))"
    by (simp cong: list.case_cong)
  from rest streak show ?thesis by blast
qed

text \<open>
  C4 on the run with trigger 2, where the streak reaches 2 at tick 1 and the account is
  revoked there, and on the run with trigger 100, where a \<^verbatim>\<open>GREEN\<close> observation resets the
  streak and the account is never revoked.
\<close>

theorem automation_threshold_witness:
  "(\<exists>timeline_lines metrics_rows summ.
     run quick_revoke_config = Inr (timeline_lines, metrics_rows, summ)
   \<and> automation_trigger_after_ticks (parameters quick_revoke_config) = 2
   \<and> map row_tick metrics_rows = [0, 1, 2, 3]
   \<and> map row_observer metrics_rows = [''RED'', ''RED'', ''RED'', ''RED'']
   \<and> map row_consecutive_observed_red metrics_rows = [1, 2, 3, 4]
   \<and> map row_service_account_revoked metrics_rows = [0, 1, 1, 1]
   \<and> sum_automation_action_tick summ = Some 1)
 \<and> (\<exists>timeline_lines metrics_rows summ.
     run recovery_config = Inr (timeline_lines, metrics_rows, summ)
   \<and> automation_trigger_after_ticks (parameters recovery_config) = 100
   \<and> map row_tick metrics_rows = [0, 1, 2, 3]
   \<and> map row_observer metrics_rows = [''RED'', ''RED'', ''RED'', ''GREEN'']
   \<and> map row_consecutive_observed_red metrics_rows = [1, 2, 3, 0]
   \<and> map row_service_account_revoked metrics_rows = [0, 0, 0, 0]
   \<and> sum_automation_action_tick summ = None)"
  using automation_threshold [OF quick_revoke_run] automation_threshold [OF recovery_run]
    quick_revoke_run recovery_run
  by (simp add: quick_revoke_config_def recovery_config_def)

subsection \<open>C5: the observer colour\<close>

text \<open>
  C5: a failed request gives \<^verbatim>\<open>RED\<close> and sets the cache window to
  \<open>tick + observer_cache_ttl_ticks\<close>; a successful request inside an armed window gives
  \<^verbatim>\<open>RED\<close> and leaves the state as it is; any other request gives \<^verbatim>\<open>GREEN\<close>, the state
  again unchanged.
\<close>

theorem observer_color_cases:
  "(\<not> request_ok \<longrightarrow>
      observer_color st p request_ok =
        (''RED'', st\<lparr>cached_red_until_tick := Some (tick st + observer_cache_ttl_ticks p)\<rparr>))
 \<and> (request_ok \<and> (\<exists>c. cached_red_until_tick st = Some c \<and> tick st \<le> c) \<longrightarrow>
      observer_color st p request_ok = (''RED'', st))
 \<and> (request_ok \<and> \<not> (\<exists>c. cached_red_until_tick st = Some c \<and> tick st \<le> c) \<longrightarrow>
      observer_color st p request_ok = (''GREEN'', st))"
  by (auto simp: observer_color_def split: option.splits)

text \<open>
  C5 on a failed request at tick 4, and on successful requests inside and after the window
  that ends at tick 6.
\<close>

theorem observer_color_cases_witness:
  "observer_color (State\<lparr>tick := 4\<rparr>)
     \<lparr>propagation_lag_ticks = 3, observer_cache_ttl_ticks = 2, automation_trigger_after_ticks = 2\<rparr>
     False
   = (''RED'', State\<lparr>tick := 4, cached_red_until_tick := Some 6\<rparr>)
 \<and> observer_color (State\<lparr>tick := 5, cached_red_until_tick := Some 6\<rparr>)
     \<lparr>propagation_lag_ticks = 3, observer_cache_ttl_ticks = 2, automation_trigger_after_ticks = 2\<rparr>
     True
   = (''RED'', State\<lparr>tick := 5, cached_red_until_tick := Some 6\<rparr>)
 \<and> observer_color (State\<lparr>tick := 7, cached_red_until_tick := Some 6\<rparr>)
     \<lparr>propagation_lag_ticks = 3, observer_cache_ttl_ticks = 2, automation_trigger_after_ticks = 2\<rparr>
     True
   = (''GREEN'', State\<lparr>tick := 7, cached_red_until_tick := Some 6\<rparr>)"
  using observer_color_cases [of False "State\<lparr>tick := 4\<rparr>"
      "\<lparr>propagation_lag_ticks = 3, observer_cache_ttl_ticks = 2, automation_trigger_after_ticks = 2\<rparr>"]
    observer_color_cases [of True "State\<lparr>tick := 5, cached_red_until_tick := Some 6\<rparr>"
      "\<lparr>propagation_lag_ticks = 3, observer_cache_ttl_ticks = 2, automation_trigger_after_ticks = 2\<rparr>"]
    observer_color_cases [of True "State\<lparr>tick := 7, cached_red_until_tick := Some 6\<rparr>"
      "\<lparr>propagation_lag_ticks = 3, observer_cache_ttl_ticks = 2, automation_trigger_after_ticks = 2\<rparr>"]
  by (simp add: State_def)

subsection \<open>C6: the cache masks a recovery\<close>

text \<open>
  C6 (amended): in a run that returns, if the request of tick \<open>T\<close> fails and the requests
  of all ticks in \<open>(T, t]\<close> succeed, then the observer reports \<^verbatim>\<open>RED\<close> at tick \<open>T\<close>, and at
  tick \<open>t\<close> it reports \<^verbatim>\<open>RED\<close> when \<open>t \<le> T + K\<close> and \<^verbatim>\<open>GREEN\<close> when \<open>t > T + K\<close>, for
  \<open>K = observer_cache_ttl_ticks\<close>.
\<close>

theorem cache_masks_recovery:
  assumes "run cfg = Inr (timeline_lines, metrics_rows, summ)"
    and "T < t" and "t < length metrics_rows"
    and "row_request_result (metrics_rows ! T) \<noteq> ''OK''"
    and "\<forall>u. T < u \<and> u \<le> t \<longrightarrow> row_request_result (metrics_rows ! u) = ''OK''"
  shows "row_tick (metrics_rows ! T) = int T \<and> row_tick (metrics_rows ! t) = int t
       \<and> row_observer (metrics_rows ! T) = ''RED''
       \<and> row_observer (metrics_rows ! t) =
           (if int t \<le> int T + observer_cache_ttl_ticks (parameters cfg)
            then ''RED'' else ''GREEN'')"
proof -
  from assms(1) obtain st where
    rl: "run_loop (parameters cfg) (regions cfg) (events_by_tick (incident_events cfg))
           [0..max_tick cfg] State = Inr (st, timeline_lines, metrics_rows)"
    by (auto simp: run_def Let_def split: sum.splits prod.splits)
  have len: "length metrics_rows = length [0..max_tick cfg]"
    using run_loop_length [OF rl] .
  have nth: "[0..max_tick cfg] ! k = int k" if "k < length metrics_rows" for k
    using that len by simp
  have ticks: "row_tick (metrics_rows ! k) = int k" if "k < length metrics_rows" for k
  proof -
    have "row_tick (metrics_rows ! k) = map row_tick metrics_rows ! k"
      using that by simp
    also have "\<dots> = [0..max_tick cfg] ! k"
      by (simp only: run_loop_ticks [OF rl])
    finally show ?thesis using nth [OF that] by simp
  qed
  have T: "T < length metrics_rows" using assms(2,3) by simp
  from run_loop_cache [OF rl assms(2,3,4,5)] nth [OF T] nth [OF assms(3)]
    ticks [OF T] ticks [OF assms(3)]
  show ?thesis by simp
qed

text \<open>
  The amended C6 on the run that fails at tick 0 only, with \<open>K = 2\<close>: \<^verbatim>\<open>RED\<close> at tick 2,
  \<^verbatim>\<open>GREEN\<close> at tick 3.
\<close>

theorem cache_masks_recovery_witness:
  "\<exists>timeline_lines metrics_rows summ.
     run recovery_config = Inr (timeline_lines, metrics_rows, summ)
   \<and> observer_cache_ttl_ticks (parameters recovery_config) = 2
   \<and> map row_request_result metrics_rows = [''PERMISSION_DENIED(us-east)'', ''OK'', ''OK'', ''OK'']
   \<and> row_observer (metrics_rows ! 0) = ''RED''
   \<and> row_observer (metrics_rows ! 2) = ''RED''
   \<and> row_observer (metrics_rows ! 3) = ''GREEN''"
proof -
  let ?rows = "[\<lparr>row_tick = 0, row_request_result = ''PERMISSION_DENIED(us-east)'',
            row_observer = ''RED'', row_consecutive_observed_red = 1,
            row_service_account_revoked = 0, row_role_attached_tick = Some 0\<rparr>,
           \<lparr>row_tick = 1, row_request_result = ''OK'', row_observer = ''RED'',
            row_consecutive_observed_red = 2, row_service_account_revoked = 0,
            row_role_attached_tick = Some 0\<rparr>,
           \<lparr>row_tick = 2, row_request_result = ''OK'', row_observer = ''RED'',
            row_consecutive_observed_red = 3, row_service_account_revoked = 0,
            row_role_attached_tick = Some 0\<rparr>,
           \<lparr>row_tick = 3, row_request_result = ''OK'', row_observer = ''GREEN'',
            row_consecutive_observed_red = 0, row_service_account_revoked = 0,
            row_role_attached_tick = Some (0::int)\<rparr>]"
  have ok: "\<forall>u. 0 < u \<and> u \<le> t \<longrightarrow> row_request_result (?rows ! u) = ''OK''" if "t \<le> 3" for t
  proof (intro allI impI)
    fix u :: nat
    assume "0 < u \<and> u \<le> t"
    with that consider "u = 1" | "u = 2" | "u = 3" by linarith
    then show "row_request_result (?rows ! u) = ''OK''"
      by cases simp_all
  qed
  have bad: "row_request_result (?rows ! 0) \<noteq> ''OK''" by simp
  have k: "observer_cache_ttl_ticks (parameters recovery_config) = 2"
    by (simp add: recovery_config_def)
  from cache_masks_recovery [OF recovery_run, of 0 2] ok [of 2] bad
  have two: "row_observer (?rows ! 2) = ''RED''" by (simp add: k)
  from cache_masks_recovery [OF recovery_run, of 0 3] ok [of 3] bad
  have three: "row_observer (?rows ! 3) = ''GREEN''" by (simp add: k)
  from cache_masks_recovery [OF recovery_run, of 0 3] ok [of 3] bad
  have zero: "row_observer (?rows ! 0) = ''RED''" by (simp add: k)
  from two three zero k show ?thesis
    by (simp add: recovery_run)
qed

text \<open>
  C6, as stated, fails at a tick whose \<^verbatim>\<open>RED\<close> comes from the cache.  With \<open>K = 2\<close> the
  observer reports \<^verbatim>\<open>RED\<close> at \<open>T = 1\<close> and the requests of ticks 2 and 3 succeed, yet the
  observer reports \<^verbatim>\<open>GREEN\<close> at tick \<open>3 = T + K\<close>: the window was armed by the failure at
  tick 0 and ends at tick 2.
\<close>

theorem cache_masks_recovery_counterexample:
  "(case run recovery_config of
      Inl err \<Rightarrow> (0, [])
    | Inr (timeline_lines, metrics_rows, summ) \<Rightarrow>
        (sum_observer_cache_ttl_ticks summ,
         map (\<lambda>r. (row_tick r, row_request_result r, row_observer r)) metrics_rows))
   = (2, [(0, ''PERMISSION_DENIED(us-east)'', ''RED''), (1, ''OK'', ''RED''),
          (2, ''OK'', ''RED''), (3, ''OK'', ''GREEN'')])"
  by code_simp

subsection \<open>C7: events that raise\<close>

text \<open>
  C7: applying an event raises exactly when the event is
  \<^verbatim>\<open>service_starts_using_service_account\<close> on an undeployed account, or its kind is none
  of the four known ones; each of the other events returns its action description and
  the state updated as its kind says.  An event that raises at any tick of a run makes
  \<open>run\<close> return the error, with no timeline and no metrics.
\<close>

theorem apply_event_raises:
  "(ev_event ev = ''deploy_service_account'' \<longrightarrow>
      apply_event st ev = Inr (''deploy_service_account'', st\<lparr>service_account_deployed := True\<rparr>))
 \<and> (ev_event ev = ''attach_required_role'' \<longrightarrow>
      apply_event st ev =
        Inr (''attach_required_role(''
               @ (case ev_role ev of None \<Rightarrow> ''unknown_role'' | Some r \<Rightarrow> r)
               @ '') control_plane_ack'',
             st\<lparr>role_attached_tick := Some (tick st),
                required_role := (case ev_role ev of None \<Rightarrow> ''unknown_role'' | Some r \<Rightarrow> r)\<rparr>))
 \<and> (ev_event ev = ''service_starts_using_service_account'' \<and> service_account_deployed st \<longrightarrow>
      apply_event st ev =
        Inr (''service_starts_using_service_account'', st\<lparr>service_account_in_use := True\<rparr>))
 \<and> (ev_event ev = ''service_starts_using_service_account'' \<and> \<not> service_account_deployed st \<longrightarrow>
      apply_event st ev = Inl (ValueError ''service started using SA before SA deployed''))
 \<and> (ev_event ev = ''operator_assumes_propagation_complete'' \<longrightarrow>
      apply_event st ev =
        Inr (''operator_assumes_propagation_complete (control-plane view)'',
             st\<lparr>operator_assumption_tick := Some (tick st)\<rparr>))
 \<and> (ev_event ev \<notin> {''deploy_service_account'', ''attach_required_role'',
                     ''service_starts_using_service_account'',
                     ''operator_assumes_propagation_complete''} \<longrightarrow>
      apply_event st ev = Inl (ValueError (''Unknown event: '' @ ev_event ev)))
 \<and> ((\<exists>err. apply_event st ev = Inl err) \<longleftrightarrow>
      (ev_event ev = ''service_starts_using_service_account'' \<and> \<not> service_account_deployed st)
      \<or> ev_event ev \<notin> {''deploy_service_account'', ''attach_required_role'',
                         ''service_starts_using_service_account'',
                         ''operator_assumes_propagation_complete''})
 \<and> (\<forall>err cfg t st_prev ls_prev rows_prev pre post ev_lines.
        apply_event st ev = Inl err
      \<and> 0 \<le> t \<and> t \<le> max_tick cfg
      \<and> run_loop (parameters cfg) (regions cfg) (events_by_tick (incident_events cfg))
            [0..t - 1] State = Inr (st_prev, ls_prev, rows_prev)
      \<and> get_events (events_by_tick (incident_events cfg)) t = pre @ ev # post
      \<and> apply_events t (st_prev\<lparr>tick := t\<rparr>) pre = Inr (st, ev_lines)
      \<longrightarrow> run cfg = Inl err)"
proof -
  have abort: "run cfg = Inl err"
    if e: "apply_event st ev = Inl err" and t: "0 \<le> t" "t \<le> max_tick cfg"
      and pre: "run_loop (parameters cfg) (regions cfg) (events_by_tick (incident_events cfg))
            [0..t - 1] State = Inr (st_prev, ls_prev, rows_prev)"
      and evs: "get_events (events_by_tick (incident_events cfg)) t = pre @ ev # post"
      and p: "apply_events t (st_prev\<lparr>tick := t\<rparr>) pre = Inr (st, ev_lines)"
    for err cfg t st_prev ls_prev rows_prev pre post ev_lines
  proof -
    have "apply_events t (st_prev\<lparr>tick := t\<rparr>)
            (get_events (events_by_tick (incident_events cfg)) t) = Inl err"
      unfolding evs using apply_events_raise [OF p e] .
    then have tb: "tick_body (parameters cfg) (regions cfg)
        (events_by_tick (incident_events cfg)) t st_prev = Inl err"
      by (simp add: tick_body_def)
    have "[0..max_tick cfg] = [0..t - 1] @ t # [t + 1..max_tick cfg]"
      using t by (rule upto_split3)
    then have "run_loop (parameters cfg) (regions cfg) (events_by_tick (incident_events cfg))
        [0..max_tick cfg] State = Inl err"
      using pre tb by (simp add: run_loop_append)
    then show ?thesis
      by (simp add: run_def)
  qed
  have kinds: "(\<exists>err. apply_event st ev = Inl err) \<longleftrightarrow>
      (ev_event ev = ''service_starts_using_service_account'' \<and> \<not> service_account_deployed st)
      \<or> ev_event ev \<notin> {''deploy_service_account'', ''attach_required_role'',
                         ''service_starts_using_service_account'',
                         ''operator_assumes_propagation_complete''}"
    by (simp add: apply_event_def Let_def)
  show ?thesis
    apply (intro conjI)
           apply (simp add: apply_event_def)
          apply (simp add: apply_event_def Let_def)
         apply (simp add: apply_event_def)
        apply (simp add: apply_event_def)
       apply (simp add: apply_event_def)
      apply (simp add: apply_event_def)
     apply (rule kinds)
    using abort apply blast
    done
qed

text \<open>
  C7 on a service start before the deployment, on an unknown event kind, both as the first
  event of tick 0, and on a deployment.
\<close>

theorem apply_event_raises_witness:
  "apply_event (State\<lparr>tick := 0\<rparr>)
     \<lparr>ev_tick = 0, ev_event = ''service_starts_using_service_account'', ev_role = None\<rparr>
     = Inl (ValueError ''service started using SA before SA deployed'')
 \<and> run undeployed_config = Inl (ValueError ''service started using SA before SA deployed'')
 \<and> apply_event (State\<lparr>tick := 0\<rparr>)
     \<lparr>ev_tick = 0, ev_event = ''rotate_keys'', ev_role = None\<rparr>
     = Inl (ValueError ''Unknown event: rotate_keys'')
 \<and> run unknown_event_config = Inl (ValueError ''Unknown event: rotate_keys'')
 \<and> apply_event (State\<lparr>tick := 0\<rparr>)
     \<lparr>ev_tick = 0, ev_event = ''deploy_service_account'', ev_role = None\<rparr>
     = Inr (''deploy_service_account'', State\<lparr>tick := 0, service_account_deployed := True\<rparr>)"
proof -
  let ?st = "State\<lparr>tick := 0\<rparr>"
  let ?start = "\<lparr>ev_tick = 0, ev_event = ''service_starts_using_service_account'', ev_role = None\<rparr>"
  let ?rot = "\<lparr>ev_tick = 0, ev_event = ''rotate_keys'', ev_role = None\<rparr>"
  let ?dep = "\<lparr>ev_tick = 0, ev_event = ''deploy_service_account'', ev_role = None\<rparr>"
  have a: "apply_event ?st ?start = Inl (ValueError ''service started using SA before SA deployed'')"
    using apply_event_raises [of ?start ?st] by (simp add: State_def)
  have b: "apply_event ?st ?rot = Inl (ValueError ''Unknown event: rotate_keys'')"
    using apply_event_raises [of ?rot ?st] by simp
  have c: "apply_event ?st ?dep
      = Inr (''deploy_service_account'', State\<lparr>tick := 0, service_account_deployed := True\<rparr>)"
    using apply_event_raises [of ?dep ?st] by simp
  have pre: "run_loop (parameters cfg) (regions cfg) (events_by_tick (incident_events cfg))
      [0..0 - 1] State = Inr (State, [], [])" for cfg :: config
    by simp
  have none: "apply_events 0 ?st [] = Inr (?st, [])"
    by simp
  have ga: "get_events (events_by_tick (incident_events undeployed_config)) 0 = [] @ ?start # []"
    by (simp add: undeployed_config_def events_by_tick_def get_events_def)
  have gb: "get_events (events_by_tick (incident_events unknown_event_config)) 0 = [] @ ?rot # []"
    by (simp add: unknown_event_config_def events_by_tick_def get_events_def)
  have ma: "(0::int) \<le> max_tick undeployed_config" "(0::int) \<le> max_tick unknown_event_config"
    by (simp_all add: undeployed_config_def unknown_event_config_def)
  have ra: "run undeployed_config = Inl (ValueError ''service started using SA before SA deployed'')"
    using apply_event_raises [of ?start ?st] a pre [of undeployed_config] ga none ma(1)
    by blast
  have rb: "run unknown_event_config = Inl (ValueError ''Unknown event: rotate_keys'')"
    using apply_event_raises [of ?rot ?st] b pre [of unknown_event_config] gb none ma(2)
    by blast
  from a b c ra rb show ?thesis by simp
qed

subsection \<open>C8: the role attachment tick\<close>

text \<open>
  C8 (amended): once \<open>role_attached_tick\<close> is set, no later tick clears it; it keeps its
  value over all ticks that apply no \<^verbatim>\<open>attach_required_role\<close> event; and an event that
  is applied changes it only when it is an \<^verbatim>\<open>attach_required_role\<close> event, which sets
  it to the current tick.
\<close>

theorem role_attached_tick_kept:
  assumes "run_loop p rs ebt ts st = Inr (st', ls, rows)"
    and "role_attached_tick st = Some v"
  shows "role_attached_tick st' \<noteq> None
       \<and> ((\<forall>t \<in> set ts. \<forall>e \<in> set (get_events ebt t). ev_event e \<noteq> ''attach_required_role'')
            \<longrightarrow> role_attached_tick st' = Some v)
       \<and> (\<forall>s e a s'. apply_event s e = Inr (a, s') \<longrightarrow>
            role_attached_tick s' =
              (if ev_event e = ''attach_required_role'' then Some (tick s)
               else role_attached_tick s))"
  using run_loop_role [OF assms(1)] assms(2) apply_event_role
  by simp

text \<open>
  The amended C8 on the run that attaches a role at tick 0, deploys and starts the service
  at tick 1, records the operator's assumption at tick 2 and attaches again at tick 3.
  From the state after tick 0, the three events of ticks 1 and 2 keep the attachment of
  tick 0; the attachment of tick 3 does not clear it and sets it to 3.
\<close>

theorem role_attached_tick_kept_witness:
  "\<exists>st0 ls0 rows0 st2 ls2 rows2 st3 ls3 rows3 action st_ev.
     run_loop (parameters role_history_config) (regions role_history_config)
       (events_by_tick (incident_events role_history_config)) [0..0] State
       = Inr (st0, ls0, rows0)
   \<and> role_attached_tick st0 = Some 0
   \<and> map ev_event (get_events (events_by_tick (incident_events role_history_config)) 1)
       = [''deploy_service_account'', ''service_starts_using_service_account'']
   \<and> map ev_event (get_events (events_by_tick (incident_events role_history_config)) 2)
       = [''operator_assumes_propagation_complete'']
   \<and> run_loop (parameters role_history_config) (regions role_history_config)
       (events_by_tick (incident_events role_history_config)) [1..2] st0
       = Inr (st2, ls2, rows2)
   \<and> role_attached_tick st2 = Some 0
   \<and> map ev_event (get_events (events_by_tick (incident_events role_history_config)) 3)
       = [''attach_required_role'']
   \<and> run_loop (parameters role_history_config) (regions role_history_config)
       (events_by_tick (incident_events role_history_config)) [3..3] st2
       = Inr (st3, ls3, rows3)
   \<and> role_attached_tick st3 \<noteq> None
   \<and> apply_event (st2\<lparr>tick := 3\<rparr>)
        \<lparr>ev_tick = 3, ev_event = ''attach_required_role'', ev_role = None\<rparr>
       = Inr (action, st_ev)
   \<and> role_attached_tick st_ev = Some 3"
proof -
  let ?ebt = "events_by_tick (incident_events role_history_config)"
  let ?st0 = "\<lparr>tick = 0, role_attached_tick = Some 0, required_role = ''X'',
      service_account_deployed = False, service_account_in_use = False,
      service_account_revoked = False, cached_red_until_tick = Some 0,
      consecutive_observed_red = 1, operator_assumption_tick = None,
      automation_action_tick = None, total_requests = 1,
      denied_requests = 0, revoked_requests = 0\<rparr>"
  let ?st2 = "\<lparr>tick = 2, role_attached_tick = Some 0, required_role = ''X'',
      service_account_deployed = True, service_account_in_use = True,
      service_account_revoked = False, cached_red_until_tick = Some 0,
      consecutive_observed_red = 0, operator_assumption_tick = Some 2,
      automation_action_tick = None, total_requests = 3,
      denied_requests = 0, revoked_requests = 0\<rparr>"
  let ?attach = "\<lparr>ev_tick = 3, ev_event = ''attach_required_role'', ev_role = None\<rparr>"
  let ?st3 = "\<lparr>tick = 3, role_attached_tick = Some 3,
      required_role = ''unknown_role'', service_account_deployed = True,
      service_account_in_use = True, service_account_revoked = False,
      cached_red_until_tick = Some 3, consecutive_observed_red = 1,
      operator_assumption_tick = Some 2, automation_action_tick = None,
      total_requests = 4, denied_requests = 1, revoked_requests = 0\<rparr>"
  have set12: "set [1..2] = {1, 2::int}"
    by (simp add: upto_rec1)
  have no_attach: "\<forall>t \<in> set [1..2]. \<forall>e \<in> set (get_events ?ebt t).
      ev_event e \<noteq> ''attach_required_role''"
    unfolding set12 by (simp add: role_history_events)
  have at0: "role_attached_tick ?st0 = Some 0"
    by simp
  from role_attached_tick_kept [OF role_history_ticks_1_2 at0] no_attach
  have kept: "role_attached_tick ?st2 = Some 0"
    by blast
  from role_attached_tick_kept [OF role_history_tick_3 kept]
  have still: "role_attached_tick ?st3 \<noteq> None"
    by blast
  have ev: "apply_event (?st2\<lparr>tick := 3\<rparr>) ?attach
      = Inr (''attach_required_role(unknown_role) control_plane_ack'',
             ?st2\<lparr>tick := 3, role_attached_tick := Some 3, required_role := ''unknown_role''\<rparr>)"
    by (simp add: apply_event_def)
  from role_attached_tick_kept [OF role_history_ticks_1_2 at0] ev
  have over: "role_attached_tick
      (?st2\<lparr>tick := 3, role_attached_tick := Some 3, required_role := ''unknown_role''\<rparr>)
      = Some 3"
    by simp
  show ?thesis
    using role_history_tick_0 role_history_ticks_1_2 role_history_tick_3
      kept still ev over
    by (simp add: role_history_events)
qed

text \<open>
  C8, as stated, fails when a role is attached twice: the attachment at tick 2 replaces
  the tick recorded at tick 0.
\<close>

theorem role_attached_tick_counterexample:
  "(case run reattach_config of
      Inl err \<Rightarrow> []
    | Inr (timeline_lines, metrics_rows, summ) \<Rightarrow>
        map (\<lambda>r. (row_tick r, row_role_attached_tick r)) metrics_rows)
   = [(0, Some 0), (1, Some 0), (2, Some 2)]"
  by code_simp

subsection \<open>C9: no regions\<close>

text \<open>
  C9: with the account in use and not revoked, a request over the empty region list
  succeeds with \<^verbatim>\<open>OK\<close>, whatever the tick, the attachment and the propagation lag.
\<close>

theorem empty_regions_ok:
  "service_account_in_use st \<Longrightarrow> \<not> service_account_revoked st \<Longrightarrow>
     service_request st p [] = (True, ''OK'')"
  by (simp add: service_request_def)

text \<open>
  C9 at tick 7, with no role attached and a lag of 50.
\<close>

theorem empty_regions_ok_witness:
  "service_request (State\<lparr>tick := 7, service_account_in_use := True\<rparr>)
     \<lparr>propagation_lag_ticks = 50, observer_cache_ttl_ticks = 0, automation_trigger_after_ticks = 1\<rparr>
     []
   = (True, ''OK'')"
  using empty_regions_ok [of "State\<lparr>tick := 7, service_account_in_use := True\<rparr>"
      "\<lparr>propagation_lag_ticks = 50, observer_cache_ttl_ticks = 0, automation_trigger_after_ticks = 1\<rparr>"]
  by (simp add: State_def)

subsection \<open>C10: the request counters\<close>

text \<open>
  C10: a tick that completes reports the reason of its request in its row, adds 1 to
  \<open>total_requests\<close>, adds 1 to \<open>denied_requests\<close> exactly when the reason contains
  \<^verbatim>\<open>PERMISSION_DENIED\<close>, and adds 1 to \<open>revoked_requests\<close> exactly when the reason is
  \<^verbatim>\<open>SERVICE_ACCOUNT_REVOKED\<close>; a \<^verbatim>\<open>SERVICE_NOT_STARTED\<close> failure counts in
  \<open>total_requests\<close> only.
\<close>

theorem tick_counters:
  assumes "tick_body p rs ebt t st = Inr (st', ls, row)"
  shows "(\<exists>st1 evl. apply_events t (st\<lparr>tick := t\<rparr>) (get_events ebt t) = Inr (st1, evl)
            \<and> row_request_result row = snd (service_request st1 p rs))
       \<and> total_requests st' = total_requests st + 1
       \<and> denied_requests st' = denied_requests st
            + (if str_contains ''PERMISSION_DENIED'' (row_request_result row) then 1 else 0)
       \<and> revoked_requests st' = revoked_requests st
            + (if row_request_result row = ''SERVICE_ACCOUNT_REVOKED'' then 1 else 0)
       \<and> (row_request_result row = ''SERVICE_NOT_STARTED'' \<longrightarrow>
            total_requests st' = total_requests st + 1
          \<and> denied_requests st' = denied_requests st
          \<and> revoked_requests st' = revoked_requests st)"
proof -
  have "\<exists>st1 evl. apply_events t (st\<lparr>tick := t\<rparr>) (get_events ebt t) = Inr (st1, evl)
            \<and> row_request_result row = snd (service_request st1 p rs)"
    using tick_body_request [OF assms] by blast
  moreover have "\<not> str_contains ''PERMISSION_DENIED'' ''SERVICE_NOT_STARTED''"
    by simp
  ultimately show ?thesis
    using tick_body_counters [OF assms] by simp
qed

text \<open>
  C10 on tick 0 of the run whose service never starts.
\<close>

theorem tick_counters_witness:
  "\<exists>st' ls row.
     tick_body (parameters never_started_config) (regions never_started_config)
       (events_by_tick (incident_events never_started_config)) 0 State = Inr (st', ls, row)
   \<and> row_request_result row = ''SERVICE_NOT_STARTED''
   \<and> total_requests st' = 1 \<and> denied_requests st' = 0 \<and> revoked_requests st' = 0"
  using tick_counters [OF never_started_tick] never_started_tick
  by (simp add: State_def)

end
